theory Spec2Isabelle
  imports
    Complex_Main
    "HOL-Library.Word"
    "HOL-Library.Multiset"
    "HOL-Library.Char_ord"
    "HOL-Library.List_Lexorder"
begin

unbundle bit_operations_syntax

section \<open>The SLVSS loop of n8n-sovereign\<close>

text \<open>
  The development embeds the five classes of the self-loop verification and scaling system:
  \<^verbatim>\<open>VERI3FY\<close> (the three-stage gate), \<^verbatim>\<open>ScalingEngine\<close>, \<^verbatim>\<open>LearningCore\<close>,
  \<^verbatim>\<open>AutoGenerator\<close> and \<^verbatim>\<open>SLVSSRunner\<close> (the orchestrator). Every class becomes a record
  of its private fields; every method takes that record and returns the updated one next
  to its result.

  Field names that several interfaces share carry a short prefix of their interface
  (\<open>si_\<close> for \<^verbatim>\<open>ScaleInput\<close>, \<open>gi_\<close> for \<^verbatim>\<open>GenerateInput\<close>, \<open>ii_\<close> for \<^verbatim>\<open>IngestInput\<close>,
  \<open>ev_\<close> for an entry of \<^verbatim>\<open>scaleHistory\<close>, \<open>al_\<close> for an entry of \<^verbatim>\<open>artifactLog\<close>,
  \<open>t_\<close> for \<^verbatim>\<open>ArtifactTemplate\<close>, \<open>gr_\<close> for \<^verbatim>\<open>GenerationResult\<close>, \<open>lr_\<close> for
  \<^verbatim>\<open>LearningResult\<close>, \<open>p_\<close> for \<^verbatim>\<open>LearnedPattern\<close>, \<open>it_\<close> for \<^verbatim>\<open>LoopIteration\<close>);
  the \<^verbatim>\<open>config\<close> of the gate and of the learning core are \<open>v_config\<close> and \<open>lc_config\<close>.
  Methods whose name is also a field of a result (\<^verbatim>\<open>stage1_syntax\<close>, \<^verbatim>\<open>stage2_logic\<close>,
  \<^verbatim>\<open>stage3_sovereignty\<close>) end in \<open>_check\<close>.
\<close>

subsection \<open>Numbers\<close>

text \<open>
  A JavaScript \<^verbatim>\<open>number\<close> is modelled as an exact rational: the arithmetic of the model
  has no binary rounding error, and the infinities are left out. \<^verbatim>\<open>NaN\<close> appears only as
  a payload value (see \<open>jsval\<close>). Counters and array lengths are natural numbers; the
  iteration number handed to the engines and the readings of the clock (milliseconds)
  are integers.

  Where the code multiplies or adds in double precision and then rounds, its result can
  differ from the model's in the last rounded decimal: \<open>2.4414 \<times> 1.25\<close> is rounded to
  3.0518 here and to 3.0517 by the code, whose product is 3.0517499999999997. The
  theorems of the claims therefore state a rounded product only to within one unit of its
  last decimal, or at values where both arithmetics agree.
\<close>

type_synonym number = rat

text \<open>
  \<^verbatim>\<open>parseFloat(x.toFixed(d))\<close>: the nearest multiple of \<open>10\<^sup>-\<^sup>d\<close>; of two nearest ones the
  one of larger magnitude (\<^verbatim>\<open>toFixed\<close> rounds the absolute value and puts the sign back).
\<close>

definition toFixed :: "nat \<Rightarrow> number \<Rightarrow> number" where
  "toFixed d x =
     (if x < 0 then - (of_int \<lfloor>- x * 10 ^ d + 1 / 2\<rfloor> / 10 ^ d)
      else of_int \<lfloor>x * 10 ^ d + 1 / 2\<rfloor> / 10 ^ d)"

subsection \<open>Values of unknown type\<close>

text \<open>
  The gate receives a \<^verbatim>\<open>Record<string, unknown>\<close>. A field value is one of the primitive
  values below or a plain object (\<open>Obj\<close>, whose content the gate never reads).
\<close>

datatype jsval = Undefined | Null | Bool bool | Num number | NaN | Str string | Obj

text \<open>
  Conversions that the language performs and that are not code of this repository are
  parameters of the model: \<open>StringToNumber\<close> (the numeric value of a string, \<open>None\<close> for
  \<^verbatim>\<open>NaN\<close>), \<open>NumberToString\<close> (the text of a number) and \<open>log2\<close> (\<^verbatim>\<open>Math.log2\<close>).
\<close>

record js_builtins =
  StringToNumber :: "string \<Rightarrow> number option"
  NumberToString :: "number \<Rightarrow> string"
  log2 :: "number \<Rightarrow> number"

text \<open>\<^verbatim>\<open>ToNumber\<close>; \<open>None\<close> stands for \<^verbatim>\<open>NaN\<close>.\<close>

fun to_number :: "js_builtins \<Rightarrow> jsval \<Rightarrow> number option" where
  "to_number js Undefined = None"
| "to_number js Null = Some 0"
| "to_number js (Bool b) = Some (if b then 1 else 0)"
| "to_number js (Num x) = Some x"
| "to_number js NaN = None"
| "to_number js (Str s) = StringToNumber js s"
| "to_number js Obj = None"

text \<open>\<^verbatim>\<open>String(v)\<close>.\<close>

fun to_string :: "js_builtins \<Rightarrow> jsval \<Rightarrow> string" where
  "to_string js Undefined = ''undefined''"
| "to_string js Null = ''null''"
| "to_string js (Bool b) = (if b then ''true'' else ''false'')"
| "to_string js (Num x) = NumberToString js x"
| "to_string js NaN = ''NaN''"
| "to_string js (Str s) = s"
| "to_string js Obj = ''[object Object]''"

text \<open>\<^verbatim>\<open>typeof v === 'number'\<close>, \<^verbatim>\<open>typeof v === 'string'\<close> and the truthiness of a value.\<close>

fun is_number :: "jsval \<Rightarrow> bool" where
  "is_number (Num x) = True"
| "is_number NaN = True"
| "is_number v = False"

fun is_string :: "jsval \<Rightarrow> bool" where
  "is_string (Str s) = True"
| "is_string v = False"

fun truthy :: "jsval \<Rightarrow> bool" where
  "truthy Undefined = False"
| "truthy Null = False"
| "truthy (Bool b) = b"
| "truthy (Num x) = (x \<noteq> 0)"
| "truthy NaN = False"
| "truthy (Str s) = (s \<noteq> [])"
| "truthy Obj = True"

text \<open>
  The relational operators on a value and a number: both sides are converted by
  \<^verbatim>\<open>ToNumber\<close>, and every comparison with \<^verbatim>\<open>NaN\<close> is false.
\<close>

definition js_lt :: "number option \<Rightarrow> number option \<Rightarrow> bool" where
  "js_lt a b = (case (a, b) of (Some x, Some y) \<Rightarrow> x < y | _ \<Rightarrow> False)"

definition js_gt :: "number option \<Rightarrow> number option \<Rightarrow> bool" where
  "js_gt a b = js_lt b a"

definition js_le :: "number option \<Rightarrow> number option \<Rightarrow> bool" where
  "js_le a b = (case (a, b) of (Some x, Some y) \<Rightarrow> x \<le> y | _ \<Rightarrow> False)"

definition js_sub :: "number option \<Rightarrow> number option \<Rightarrow> number option" where
  "js_sub a b = (case (a, b) of (Some x, Some y) \<Rightarrow> Some (x - y) | _ \<Rightarrow> None)"

text \<open>An object literal: its own properties in insertion order; a missing key reads \<^verbatim>\<open>undefined\<close>.\<close>

type_synonym payload = "(string \<times> jsval) list"

definition field :: "payload \<Rightarrow> string \<Rightarrow> jsval" where
  "field p k = (case map_of p k of None \<Rightarrow> Undefined | Some v \<Rightarrow> v)"

subsection \<open>Strings\<close>

text \<open>\<^verbatim>\<open>s.includes(t)\<close>.\<close>

fun starts_with :: "string \<Rightarrow> string \<Rightarrow> bool" where
  "starts_with s [] = True"
| "starts_with [] (c # t) = False"
| "starts_with (d # s) (c # t) = (d = c \<and> starts_with s t)"

fun js_includes :: "string \<Rightarrow> string \<Rightarrow> bool" where
  "js_includes [] t = (t = [])"
| "js_includes (c # s) t = (starts_with (c # s) t \<or> js_includes s t)"

text \<open>\<^verbatim>\<open>s.split(c)[0]\<close>: the text before the first separator.\<close>

definition split_head :: "char \<Rightarrow> string \<Rightarrow> string" where
  "split_head c s = takeWhile (\<lambda>d. d \<noteq> c) s"

text \<open>
  \<^verbatim>\<open>s.match(/\d+\.\d+/)\<close> finds a match exactly when a digit, a dot and a digit stand
  next to each other somewhere in \<open>s\<close>.
\<close>

definition is_digit :: "char \<Rightarrow> bool" where
  "is_digit c = (CHR ''0'' \<le> c \<and> c \<le> CHR ''9'')"

fun match_version :: "string \<Rightarrow> bool" where
  "match_version (a # b # c # s) =
     ((is_digit a \<and> b = CHR ''.'' \<and> is_digit c) \<or> match_version (b # c # s))"
| "match_version s = False"

text \<open>The decimal text of a counter and of an integer, and the hexadecimal text of a
  non-negative integer.\<close>

definition digit_char :: "nat \<Rightarrow> char" where
  "digit_char n = (''0123456789abcdef'' ! n)"

fun show_nat :: "nat \<Rightarrow> string" where
  "show_nat n = (if n < 10 then [digit_char n] else show_nat (n div 10) @ [digit_char (n mod 10)])"

declare show_nat.simps [simp del]

definition show_int :: "int \<Rightarrow> string" where
  "show_int i = (if i < 0 then CHR ''-'' # show_nat (nat (- i)) else show_nat (nat i))"

function show_hex :: "int \<Rightarrow> string" where
  "show_hex n =
     (if n < 16 then [digit_char (nat n)] else show_hex (n div 16) @ [digit_char (nat (n mod 16))])"
  by pat_completeness auto
termination
  by (relation "measure nat") auto

declare show_hex.simps [simp del]

text \<open>\<^verbatim>\<open>xs.join(sep)\<close>.\<close>

fun join :: "string \<Rightarrow> string list \<Rightarrow> string" where
  "join sep [] = []"
| "join sep [x] = x"
| "join sep (x # y # xs) = x @ sep @ join sep (y # xs)"

text \<open>\<^verbatim>\<open>xs.slice(-n)\<close> for \<open>n > 0\<close>: the last \<open>n\<close> elements.\<close>

definition last_n :: "nat \<Rightarrow> 'a list \<Rightarrow> 'a list" where
  "last_n n xs = drop (length xs - n) xs"

text \<open>\<^verbatim>\<open>xs.slice(0, k)\<close>: a negative \<open>k\<close> counts from the end.\<close>

definition slice0 :: "int \<Rightarrow> 'a list \<Rightarrow> 'a list" where
  "slice0 k xs = (if k < 0 then take (nat (int (length xs) + k)) xs else take (nat k) xs)"

subsection \<open>The records of one iteration\<close>

datatype status = Running | Passed | Failed | Scaled

text \<open>
  An error message of the gate is a template literal: its constant text, with \<^verbatim>\<open>${}\<close>
  where a value is spliced in, and the spliced values in order.
\<close>

datatype errmsg = ErrMsg string "jsval list"

fun template :: "errmsg \<Rightarrow> string" where
  "template (ErrMsg t vs) = t"

record VERI3FYResult =
  stage1_syntax :: bool
  stage2_logic :: bool
  stage3_sovereignty :: bool
  passed :: bool
  score :: number
  errors :: "errmsg list"

record ScalingResult =
  scaled :: bool
  previousScale :: number
  newScale :: number
  reason :: string

text \<open>
  An artifact is the text a generator method returns. The model keeps the values the
  text is rendered from (iteration, scale, confidence; for the summary also the recent
  statuses and their average ROI) and leaves out the wall-clock stamps.
\<close>

datatype artifact =
    Workflow int number number
  | ApiRoute int number number
  | ValueReport int number number
  | AgentTask int number number
  | TsModule int number number
  | QuantumWorkflow int number number
  | SovereigntySummary int number number "status list" number

record GenerationResult =
  generated :: bool
  artifacts :: "artifact list"
  gr_type :: string

record LearningResult =
  learned :: bool
  lr_patterns :: nat
  improvementDelta :: number
  lr_modelVersion :: string

record LoopIteration =
  it_id :: nat
  startedAt :: int
  completedAt :: "int option"
  durationMs :: int
  veri3fyResult :: VERI3FYResult
  scalingResult :: ScalingResult
  generationResult :: GenerationResult
  learningResult :: LearningResult
  status :: status
  confidence :: number
  roi :: number

subsection \<open>ScalingEngine\<close>

record ScaleInput =
  si_score :: number
  si_iteration :: int
  si_history :: "LoopIteration list"

record ScalePolicy =
  growthFactor :: number
  maxScale :: number
  minPassStreak :: number
  decayOnFailure :: bool
  decayFactor :: number

record ScaleEvent =
  ev_iteration :: int
  ev_scale :: number
  ev_reason :: string

record ScalingEngine =
  policy :: ScalePolicy
  currentScale :: number
  passStreak :: nat
  failStreak :: nat
  scaleHistory :: "ScaleEvent list"

text \<open>The constructor: the defaults, overridden by the fields of the argument.\<close>

definition default_policy :: ScalePolicy where
  "default_policy =
     \<lparr>growthFactor = 5 / 4, maxScale = 1024, minPassStreak = 3,
      decayOnFailure = True, decayFactor = 9 / 10\<rparr>"

definition new_ScalingEngine :: "ScalePolicy \<Rightarrow> ScalingEngine" where
  "new_ScalingEngine pol =
     \<lparr>policy = pol, currentScale = 1, passStreak = 0, failStreak = 0, scaleHistory = []\<rparr>"

text \<open>
  The loop of \<^verbatim>\<open>updateStreaks\<close>, run over the window from its last element backward
  (the argument is the reversed window); \<^verbatim>\<open>break\<close> returns the two counters.
\<close>

fun streak_loop :: "status list \<Rightarrow> nat \<Rightarrow> nat \<Rightarrow> nat \<times> nat" where
  "streak_loop [] ps fs = (ps, fs)"
| "streak_loop (s # rest) ps fs =
     (if s = Passed \<or> s = Scaled then
        (if fs = 0 then streak_loop rest (ps + 1) fs else (ps, fs))
      else if s = Failed then
        (if ps = 0 then streak_loop rest ps (fs + 1) else (ps, fs))
      else (ps, fs))"

definition updateStreaks :: "LoopIteration list \<Rightarrow> ScalingEngine \<Rightarrow> ScalingEngine" where
  "updateStreaks history e =
     (if length history = 0 then e
      else
        let window = last_n 10 history;
            (ps, fs) = streak_loop (rev (map status window)) 0 0
        in e\<lparr>passStreak := ps, failStreak := fs\<rparr>)"

text \<open>
  The reason strings splice in formatted numbers; the model keeps their constant part,
  one per rule.
\<close>

definition push_event :: "ScaleEvent \<Rightarrow> ScaleEvent list \<Rightarrow> ScaleEvent list" where
  "push_event ev evs = (let l = evs @ [ev] in if length l > 50 then tl l else l)"

definition scale :: "ScaleInput \<Rightarrow> ScalingEngine \<Rightarrow> ScalingResult \<times> ScalingEngine" where
  "scale inp e0 =
     (let prev = currentScale e0;
          e = updateStreaks (si_history inp) e0;
          pol = policy e;
          (scaled', reason', e1) =
            (if of_nat (passStreak e) \<ge> minPassStreak pol \<and> si_score inp \<ge> 85 / 100
                \<and> currentScale e < maxScale pol
             then
               let next = toFixed 4 (min (currentScale e * growthFactor pol) (maxScale pol))
               in (True, ''Pass streak + score -> scale up'',
                   e\<lparr>currentScale := next, passStreak := 0\<rparr>)
             else if decayOnFailure pol \<and> failStreak e \<ge> 3 \<and> currentScale e > 1
             then
               let next = toFixed 4 (max (currentScale e * decayFactor pol) 1)
               in (True, ''Fail streak -> scale decay'',
                   e\<lparr>currentScale := next, failStreak := 0\<rparr>)
             else if si_iteration inp > 0 \<and> si_iteration inp mod 10 = 0
                \<and> si_score inp \<ge> 95 / 100
             then
               let quantumBoost = currentScale e * (3 / 2);
                   next = toFixed 4 (min quantumBoost (maxScale pol))
               in (True, ''Quantum boost'', e\<lparr>currentScale := next\<rparr>)
             else (False, ''No scaling event'', e));
          e2 = (if scaled'
                then e1\<lparr>scaleHistory :=
                          push_event \<lparr>ev_iteration = si_iteration inp,
                                      ev_scale = currentScale e1,
                                      ev_reason = reason'\<rparr> (scaleHistory e1)\<rparr>
                else e1)
      in (\<lparr>scaled = scaled', previousScale = prev, newScale = currentScale e2,
           reason = reason'\<rparr>, e2))"

text \<open>A sequence of calls of \<^verbatim>\<open>scale\<close> on one engine.\<close>

definition scale_calls :: "ScaleInput list \<Rightarrow> ScalingEngine \<Rightarrow> ScalingEngine" where
  "scale_calls inps e = fold (\<lambda>inp e'. snd (scale inp e')) inps e"

subsection \<open>VERI3FY\<close>

record VERI3FYConfig =
  stages :: int
  threshold :: number
  strictMode :: bool

record VERI3FY =
  v_config :: VERI3FYConfig
  verifyCount :: nat
  passCount :: nat

definition default_VERI3FYConfig :: VERI3FYConfig where
  "default_VERI3FYConfig = \<lparr>stages = 3, threshold = 85 / 100, strictMode = True\<rparr>"

definition new_VERI3FY :: "VERI3FYConfig \<Rightarrow> VERI3FY" where
  "new_VERI3FY cfg = \<lparr>v_config = cfg, verifyCount = 0, passCount = 0\<rparr>"

text \<open>
  A stage carries the pair of its \<^verbatim>\<open>ok\<close> flag and the shared \<^verbatim>\<open>errors\<close> array through
  its checks: \<open>check\<close> is an \<^verbatim>\<open>if\<close> that pushes a message and clears the flag, \<open>warn\<close> one
  that only pushes the message.
\<close>

type_synonym stage_state = "bool \<times> errmsg list"

definition check :: "bool \<Rightarrow> errmsg \<Rightarrow> stage_state \<Rightarrow> stage_state" where
  "check c m st = (if c then (False, snd st @ [m]) else st)"

definition warn :: "bool \<Rightarrow> errmsg \<Rightarrow> stage_state \<Rightarrow> stage_state" where
  "warn c m st = (if c then (fst st, snd st @ [m]) else st)"

definition required :: "string list" where
  "required = [''iteration'', ''scale'', ''learnerVersion'', ''timestamp'', ''ark95xNode'']"

definition stage1_syntax_check :: "js_builtins \<Rightarrow> payload \<Rightarrow> errmsg list \<Rightarrow> stage_state" where
  "stage1_syntax_check js p errs =
     (let st0 = foldl (\<lambda>st f.
                   check (field p f = Undefined \<or> field p f = Null)
                     (ErrMsg ''STAGE1: Missing required field: ${}'' [Str f]) st)
                 (True, errs) required;
          st1 = check (\<not> is_number (field p ''iteration'')
                       \<or> js_lt (to_number js (field p ''iteration'')) (Some 0))
                  (ErrMsg ''STAGE1: iteration must be a non-negative number'' []) st0;
          st2 = check (\<not> is_number (field p ''scale'')
                       \<or> js_lt (to_number js (field p ''scale'')) (Some 1))
                  (ErrMsg ''STAGE1: scale must be >= 1'' []) st1;
          st3 = check (case field p ''ark95xNode'' of
                         Str s \<Rightarrow> \<not> js_includes s ''ARK95X'' | _ \<Rightarrow> True)
                  (ErrMsg ''STAGE1: ark95xNode must contain 'ARK95X' identifier'' []) st2;
          st4 = check (\<not> is_number (field p ''timestamp'')
                       \<or> js_le (to_number js (field p ''timestamp'')) (Some 0))
                  (ErrMsg ''STAGE1: timestamp must be a positive epoch ms value'' []) st3
      in st4)"

text \<open>
  \<open>now\<close> is the value of \<^verbatim>\<open>Date.now()\<close> read inside stage 2. The dash of the ROI
  warning is written \<open>--\<close>.
\<close>

definition stage2_logic_check :: "js_builtins \<Rightarrow> int \<Rightarrow> payload \<Rightarrow> errmsg list \<Rightarrow> stage_state" where
  "stage2_logic_check js now p errs =
     (let successRate = to_number js (field p ''successRate'');
          avgConfidence = to_number js (field p ''avgConfidence'');
          avgROI = to_number js (field p ''avgROI'');
          st1 = check (js_lt successRate (Some 0) \<or> js_gt successRate (Some 1))
                  (ErrMsg ''STAGE2: successRate out of range: ${}'' [field p ''successRate''])
                  (True, errs);
          st2 = check (js_lt avgConfidence (Some 0) \<or> js_gt avgConfidence (Some 1))
                  (ErrMsg ''STAGE2: avgConfidence out of range: ${}'' [field p ''avgConfidence''])
                  st1;
          st3 = warn (js_lt avgROI (Some 0))
                  (ErrMsg ''STAGE2: avgROI is negative (${}) -- underperforming''
                     [field p ''avgROI''])
                  st2;
          ageMs = js_sub (Some (of_int now)) (to_number js (field p ''timestamp''));
          st4 = check (js_gt ageMs (Some 60000))
                  (ErrMsg ''STAGE2: Payload timestamp is stale (${}s old)''
                     [case ageMs of Some a \<Rightarrow> Num (toFixed 1 (a / 1000)) | None \<Rightarrow> NaN])
                  st3;
          st5 = check (is_number (field p ''iteration'')
                       \<and> js_lt (to_number js (field p ''iteration'')) (Some 0))
                  (ErrMsg ''STAGE2: iteration cannot be negative'' []) st4
      in st5)"

definition validNodes :: "string list" where
  "validNodes = [''SLVSS-ARK95X-v2'', ''PAXRuntime'', ''SovereignExtraction'', ''AutomationAPI'']"

definition stage3_sovereignty_check :: "js_builtins \<Rightarrow> payload \<Rightarrow> errmsg list \<Rightarrow> stage_state" where
  "stage3_sovereignty_check js p errs =
     (let nodeValid = list_ex (\<lambda>n. js_includes (to_string js (field p ''ark95xNode''))
                                    (split_head CHR ''-'' n)) validNodes;
          st1 = check (\<not> nodeValid)
                  (ErrMsg ''STAGE3: Non-sovereign node detected: ${}'' [field p ''ark95xNode''])
                  (True, errs);
          st2 = check (js_gt (to_number js (field p ''iteration'')) (Some 5)
                       \<and> js_lt (to_number js (field p ''avgConfidence'')) (Some (70 / 100)))
                  (ErrMsg ''STAGE3: Sovereignty confidence too low after warmup: ${}''
                     [field p ''avgConfidence''])
                  st1;
          st3 = check (js_gt (to_number js (field p ''iteration'')) (Some 10)
                       \<and> js_lt (to_number js (field p ''scale'')) (Some 1))
                  (ErrMsg ''STAGE3: Scale regression detected -- sovereignty at risk'' []) st2;
          st4 = check (\<not> truthy (field p ''learnerVersion'')
                       \<or> \<not> match_version (to_string js (field p ''learnerVersion'')))
                  (ErrMsg ''STAGE3: Invalid learner version: ${}'' [field p ''learnerVersion''])
                  st3
      in st4)"

definition verify :: "js_builtins \<Rightarrow> int \<Rightarrow> payload \<Rightarrow> VERI3FY \<Rightarrow> VERI3FYResult \<times> VERI3FY" where
  "verify js now p v0 =
     (let v = v0\<lparr>verifyCount := verifyCount v0 + 1\<rparr>;
          cfg = v_config v;
          (s1, errs1) = stage1_syntax_check js p [];
          stage1Score = (if s1 then 35 / 100 else 0)
      in if stages cfg < 2 then
           let ok = (s1 \<and> stage1Score \<ge> threshold cfg * (35 / 100))
           in (\<lparr>stage1_syntax = s1, stage2_logic = False, stage3_sovereignty = False,
                passed = ok, score = stage1Score, errors = errs1\<rparr>,
               if ok then v\<lparr>passCount := passCount v + 1\<rparr> else v)
         else
           let (s2, errs2) = stage2_logic_check js now p errs1;
               stage2Score = (if s2 then 30 / 100 else 0)
           in if stages cfg < 3 then
                let sc = stage1Score + stage2Score;
                    ok = (s1 \<and> s2 \<and> sc \<ge> threshold cfg * (65 / 100))
                in (\<lparr>stage1_syntax = s1, stage2_logic = s2, stage3_sovereignty = False,
                     passed = ok, score = sc, errors = errs2\<rparr>,
                    if ok then v\<lparr>passCount := passCount v + 1\<rparr> else v)
              else
                let (s3, errs3) = stage3_sovereignty_check js p errs2;
                    stage3Score = (if s3 then 35 / 100 else 0);
                    sc = toFixed 4 (stage1Score + stage2Score + stage3Score);
                    ok = (if strictMode cfg then s1 \<and> s2 \<and> s3 \<and> sc \<ge> threshold cfg
                          else sc \<ge> threshold cfg)
                in (\<lparr>stage1_syntax = s1, stage2_logic = s2, stage3_sovereignty = s3,
                     passed = ok, score = sc, errors = errs3\<rparr>,
                    if ok then v\<lparr>passCount := passCount v + 1\<rparr> else v))"

subsection \<open>LearningCore\<close>

datatype outcome = Success | Failure

fun outcome_name :: "outcome \<Rightarrow> string" where
  "outcome_name Success = ''success''"
| "outcome_name Failure = ''failure''"

text \<open>
  The \<^verbatim>\<open>data\<close> of an observation: an object whose properties are plain values or arrays
  of messages (the \<^verbatim>\<open>errors\<close> of a verification result).
\<close>

datatype dataval = Val jsval | Msgs "errmsg list"

type_synonym data = "(string \<times> dataval) list"

definition data_get :: "data \<Rightarrow> string \<Rightarrow> dataval" where
  "data_get d k = (case map_of d k of None \<Rightarrow> Val Undefined | Some v \<Rightarrow> v)"

record IngestInput =
  ii_type :: outcome
  ii_data :: data
  ii_iteration :: nat

record LearnedPattern =
  p_id :: string
  p_type :: outcome
  features :: "string list"
  weight :: number
  seenCount :: nat
  lastSeen :: int

record LearningConfig =
  memorySize :: number
  decayRate :: number
  successBoost :: number
  failurePenalty :: number
  versionPrefix :: string

text \<open>\<^verbatim>\<open>patterns\<close> is a \<^verbatim>\<open>Map\<close>: its entries in insertion order, one per key.\<close>

record LearningCore =
  lc_config :: LearningConfig
  patterns :: "(string \<times> LearnedPattern) list"
  ingestCount :: nat
  successCount :: nat
  failureCount :: nat
  modelVersion :: string
  totalImprovementDelta :: number

definition default_LearningConfig :: LearningConfig where
  "default_LearningConfig =
     \<lparr>memorySize = 500, decayRate = 99 / 100, successBoost = 1 / 10,
      failurePenalty = 15 / 100, versionPrefix = ''LC''\<rparr>"

definition new_LearningCore :: "LearningConfig \<Rightarrow> LearningCore" where
  "new_LearningCore cfg =
     \<lparr>lc_config = cfg, patterns = [], ingestCount = 0, successCount = 0, failureCount = 0,
      modelVersion = ''1.0'', totalImprovementDelta = 0\<rparr>"

text \<open>The operations of the \<^verbatim>\<open>Map\<close>.\<close>

definition map_has :: "('k \<times> 'v) list \<Rightarrow> 'k \<Rightarrow> bool" where
  "map_has m k = (map_of m k \<noteq> None)"

definition map_set :: "'k \<Rightarrow> 'v \<Rightarrow> ('k \<times> 'v) list \<Rightarrow> ('k \<times> 'v) list" where
  "map_set k v m =
     (if map_has m k then map (\<lambda>e. if fst e = k then (k, v) else e) m else m @ [(k, v)])"

definition map_delete :: "'k \<Rightarrow> ('k \<times> 'v) list \<Rightarrow> ('k \<times> 'v) list" where
  "map_delete k m = filter (\<lambda>e. fst e \<noteq> k) m"

definition extractFeatures :: "js_builtins \<Rightarrow> data \<Rightarrow> string list" where
  "extractFeatures js d =
     (let keys = map fst d in
      [''keys:'' @ show_nat (length keys), ''type_sig:'' @ join ''|'' (sort keys)]
      @ (case data_get d ''score'' of
           Val (Num x) \<Rightarrow>
             [''score_band:'' @ (if x \<ge> 9 / 10 then ''high'' else if x \<ge> 7 / 10 then ''mid''
                                 else ''low'')]
         | Val NaN \<Rightarrow> [''score_band:low'']
         | _ \<Rightarrow> [])
      @ (case data_get d ''iteration'' of
           Val (Num x) \<Rightarrow>
             [''phase:'' @ (if x < 10 then ''warmup'' else if x < 50 then ''ramp''
                            else ''cruise'')]
         | Val NaN \<Rightarrow> [''phase:cruise'']
         | _ \<Rightarrow> [])
      @ (case data_get d ''errors'' of
           Msgs es \<Rightarrow>
             [''errors:'' @ show_nat (length es)]
             @ (if length es > 0
                then [''error_types:''
                      @ join '','' (map (\<lambda>e. split_head CHR '':'' (template e)) es)]
                else [])
         | _ \<Rightarrow> [])
      @ (case data_get d ''scale'' of
           Val (Num x) \<Rightarrow> [''scale_log2:'' @ show_int \<lfloor>log2 js (x + 1)\<rfloor>]
         | Val NaN \<Rightarrow> [''scale_log2:NaN'']
         | _ \<Rightarrow> []))"

text \<open>
  The rolling hash of \<^verbatim>\<open>hashFeatures\<close>: \<^verbatim>\<open>hash |= 0\<close> keeps the low 32 bits as a signed
  integer, so the loop is arithmetic on 32-bit words.
\<close>

definition hash_step :: "32 word \<Rightarrow> char \<Rightarrow> 32 word" where
  "hash_step h c = (push_bit 5 h - h) + of_nat (of_char c)"

definition hashFeatures :: "string list \<Rightarrow> outcome \<Rightarrow> string" where
  "hashFeatures fs ty =
     (let raw = outcome_name ty @ '':'' @ join ''||'' (sort fs);
          hash = foldl hash_step 0 raw
      in outcome_name ty @ ''_'' @ show_hex \<bar>sint hash\<bar>)"

definition decayPatterns :: "LearningCore \<Rightarrow> LearningCore" where
  "decayPatterns lc =
     lc\<lparr>patterns :=
          map (\<lambda>(k, p). (k, p\<lparr>weight := toFixed 6 (weight p * decayRate (lc_config lc))\<rparr>))
            (patterns lc)\<rparr>"

definition pruneWeakPatterns :: "LearningCore \<Rightarrow> LearningCore" where
  "pruneWeakPatterns lc =
     (let sorted = sort_key (\<lambda>e. weight (snd e)) (patterns lc);
          toRemove = slice0 \<lfloor>memorySize (lc_config lc) * (1 / 10)\<rfloor> sorted
      in lc\<lparr>patterns := foldl (\<lambda>m e. map_delete (fst e) m) (patterns lc) toRemove\<rparr>)"

definition updateModelVersion :: "LearningCore \<Rightarrow> LearningCore" where
  "updateModelVersion lc =
     (let major = ingestCount lc div 100 + 1;
          minor = (ingestCount lc mod 100) div 10
      in lc\<lparr>modelVersion := show_nat major @ ''.'' @ show_nat minor\<rparr>)"

text \<open>
  \<open>now\<close> is the clock read for \<^verbatim>\<open>lastSeen\<close>. \<^verbatim>\<open>hashFeatures\<close> sorts the feature array in
  place, so the array stored in a new pattern is the sorted one.
\<close>

definition ingest :: "js_builtins \<Rightarrow> int \<Rightarrow> IngestInput \<Rightarrow> LearningCore \<Rightarrow> LearningResult \<times> LearningCore" where
  "ingest js now inp lc0 =
     (let lc1 = lc0\<lparr>ingestCount := ingestCount lc0 + 1\<rparr>;
          fs = extractFeatures js (ii_data inp);
          patternId = hashFeatures fs (ii_type inp);
          lc2 = decayPatterns lc1;
          cfg = lc_config lc2;
          (improvementDelta, lc3) =
            (case map_of (patterns lc2) patternId of
               Some p \<Rightarrow>
                 let boost = (if ii_type inp = Success then successBoost cfg
                              else failurePenalty cfg);
                     prevWeight = weight p;
                     p' = p\<lparr>weight := toFixed 6 (min (weight p + boost) 1),
                            seenCount := seenCount p + 1, lastSeen := now\<rparr>
                 in (weight p' - prevWeight,
                     lc2\<lparr>patterns := map_set patternId p' (patterns lc2)\<rparr>)
             | None \<Rightarrow>
                 let newPattern =
                       \<lparr>p_id = patternId, p_type = ii_type inp, features = sort fs,
                        weight = (if ii_type inp = Success then 6 / 10 else 4 / 10),
                        seenCount = 1, lastSeen = now\<rparr>;
                     lc' = lc2\<lparr>patterns := map_set patternId newPattern (patterns lc2)\<rparr>
                 in (weight newPattern,
                     if of_nat (length (patterns lc')) > memorySize cfg
                     then pruneWeakPatterns lc' else lc'));
          lc4 = (if ii_type inp = Success then lc3\<lparr>successCount := successCount lc3 + 1\<rparr>
                 else lc3\<lparr>failureCount := failureCount lc3 + 1\<rparr>);
          lc5 = lc4\<lparr>totalImprovementDelta := totalImprovementDelta lc4 + improvementDelta\<rparr>;
          lc6 = updateModelVersion lc5
      in (\<lparr>learned = True, lr_patterns = length (patterns lc6),
           improvementDelta = toFixed 6 improvementDelta,
           lr_modelVersion = modelVersion lc6\<rparr>, lc6))"

subsection \<open>AutoGenerator\<close>

record GenerateInput =
  gi_iteration :: int
  gi_scale :: number
  gi_confidence :: number
  gi_history :: "LoopIteration list"

record ArtifactTemplate =
  t_type :: string
  t_name :: string
  minConfidence :: number
  minScale :: number
  t_generator :: "GenerateInput \<Rightarrow> artifact"

record ArtifactLogEntry =
  al_iteration :: int
  al_artifacts :: "artifact list"
  al_type :: string

record AutoGenerator =
  generationCount :: nat
  artifactLog :: "ArtifactLogEntry list"

definition new_AutoGenerator :: AutoGenerator where
  "new_AutoGenerator = \<lparr>generationCount = 0, artifactLog = []\<rparr>"

definition genWorkflow :: "GenerateInput \<Rightarrow> artifact" where
  "genWorkflow inp = Workflow (gi_iteration inp) (gi_scale inp) (gi_confidence inp)"

definition genApiRoute :: "GenerateInput \<Rightarrow> artifact" where
  "genApiRoute inp = ApiRoute (gi_iteration inp) (gi_scale inp) (gi_confidence inp)"

definition genValueReport :: "GenerateInput \<Rightarrow> artifact" where
  "genValueReport inp = ValueReport (gi_iteration inp) (gi_scale inp) (gi_confidence inp)"

definition genAgentTask :: "GenerateInput \<Rightarrow> artifact" where
  "genAgentTask inp = AgentTask (gi_iteration inp) (gi_scale inp) (gi_confidence inp)"

definition genTsModule :: "GenerateInput \<Rightarrow> artifact" where
  "genTsModule inp = TsModule (gi_iteration inp) (gi_scale inp) (gi_confidence inp)"

definition genQuantumWorkflow :: "GenerateInput \<Rightarrow> artifact" where
  "genQuantumWorkflow inp =
     QuantumWorkflow (gi_iteration inp) (gi_scale inp) (gi_confidence inp)"

definition genSovereigntySummary :: "GenerateInput \<Rightarrow> artifact" where
  "genSovereigntySummary inp =
     (let recent = last_n 5 (gi_history inp);
          avgROI = sum_list (map roi recent) / of_nat (max 1 (length recent))
      in SovereigntySummary (gi_iteration inp) (gi_scale inp) (gi_confidence inp)
           (map status recent) avgROI)"

definition templates :: "ArtifactTemplate list" where
  "templates =
     [\<lparr>t_type = ''workflow'', t_name = ''n8n Workflow'',
       minConfidence = 85 / 100, minScale = 1, t_generator = genWorkflow\<rparr>,
      \<lparr>t_type = ''api_route'', t_name = ''API Route'',
       minConfidence = 87 / 100, minScale = 125 / 100, t_generator = genApiRoute\<rparr>,
      \<lparr>t_type = ''value_scan'', t_name = ''Value Scan Report'',
       minConfidence = 88 / 100, minScale = 1, t_generator = genValueReport\<rparr>,
      \<lparr>t_type = ''agent_task'', t_name = ''Agent Task Spec'',
       minConfidence = 90 / 100, minScale = 15 / 10, t_generator = genAgentTask\<rparr>,
      \<lparr>t_type = ''typescript_module'', t_name = ''TypeScript Module'',
       minConfidence = 92 / 100, minScale = 2, t_generator = genTsModule\<rparr>,
      \<lparr>t_type = ''quantum_workflow'', t_name = ''Quantum Workflow'',
       minConfidence = 95 / 100, minScale = 4, t_generator = genQuantumWorkflow\<rparr>]"

text \<open>The loop over the templates: the artifacts so far and \<^verbatim>\<open>highestType\<close>.\<close>

definition fire :: "GenerateInput \<Rightarrow> artifact list \<times> string \<Rightarrow> ArtifactTemplate \<Rightarrow> artifact list \<times> string" where
  "fire inp acc t =
     (if gi_confidence inp \<ge> minConfidence t \<and> gi_scale inp \<ge> minScale t
      then (fst acc @ [t_generator t inp], t_type t) else acc)"

definition generate :: "GenerateInput \<Rightarrow> AutoGenerator \<Rightarrow> GenerationResult \<times> AutoGenerator" where
  "generate inp g0 =
     (let g = g0\<lparr>generationCount := generationCount g0 + 1\<rparr>;
          (arts1, type1) = foldl (fire inp) ([], ''none'') templates;
          (arts2, type2) =
            (if gi_iteration inp > 0 \<and> gi_iteration inp mod 5 = 0
             then (arts1 @ [genSovereigntySummary inp], ''sovereignty_summary'')
             else (arts1, type1));
          g' = (if length arts2 > 0
                then let l = artifactLog g
                               @ [\<lparr>al_iteration = gi_iteration inp, al_artifacts = arts2,
                                   al_type = type2\<rparr>]
                     in g\<lparr>artifactLog := (if length l > 100 then tl l else l)\<rparr>
                else g)
      in (\<lparr>generated = (length arts2 > 0), artifacts = arts2, gr_type = type2\<rparr>, g'))"

subsection \<open>SLVSSRunner\<close>

record LoopConfig =
  maxIterations :: nat
  intervalMs :: nat
  confidenceThreshold :: number
  autoScale :: bool
  autoGenerate :: bool
  learnFromFailures :: bool
  debugMode :: bool
  veri3fyStages :: int

text \<open>\<open>loopTimer\<close> tells whether a timer for the next tick is pending.\<close>

record SLVSSRunner =
  config :: LoopConfig
  veri3fy :: VERI3FY
  scaling :: ScalingEngine
  generator :: AutoGenerator
  learner :: LearningCore
  iteration :: nat
  totalPassed :: nat
  totalFailed :: nat
  totalGenerated :: nat
  confidenceSum :: number
  roiSum :: number
  history :: "LoopIteration list"
  running :: bool
  startTime :: int
  loopTimer :: bool

definition default_LoopConfig :: LoopConfig where
  "default_LoopConfig =
     \<lparr>maxIterations = 0, intervalMs = 5000, confidenceThreshold = 85 / 100,
      autoScale = True, autoGenerate = True, learnFromFailures = True,
      debugMode = False, veri3fyStages = 3\<rparr>"

definition new_SLVSSRunner :: "LoopConfig \<Rightarrow> int \<Rightarrow> SLVSSRunner" where
  "new_SLVSSRunner cfg now =
     \<lparr>config = cfg,
      veri3fy = new_VERI3FY (default_VERI3FYConfig
                  \<lparr>stages := veri3fyStages cfg, threshold := confidenceThreshold cfg\<rparr>),
      scaling = new_ScalingEngine default_policy,
      generator = new_AutoGenerator,
      learner = new_LearningCore default_LearningConfig,
      iteration = 0, totalPassed = 0, totalFailed = 0, totalGenerated = 0,
      confidenceSum = 0, roiSum = 0, history = [], running = False,
      startTime = now, loopTimer = False\<rparr>"

text \<open>
  What one tick takes from its environment: the readings of the clock (at the start of
  the tick, in \<^verbatim>\<open>buildPayload\<close>, inside the gate, in the learner, at the end) and the
  phase, if any, whose call throws. The \<^verbatim>\<open>try\<close> block returns \<open>Inl\<close> with the state
  reached when the exception is thrown and \<open>Inr\<close> when it runs to its end; events
  emitted to listeners and log lines are not part of the state.
\<close>

datatype phase = VerifyPhase | ScalePhase | GeneratePhase | LearnPhase

record TickEnv =
  clock_start :: int
  clock_payload :: int
  clock_verify :: int
  clock_learn :: int
  clock_end :: int
  fault :: "phase option"

definition new_iteration :: "nat \<Rightarrow> int \<Rightarrow> number \<Rightarrow> LoopIteration" where
  "new_iteration n now sc =
     \<lparr>it_id = n, startedAt = now, completedAt = None, durationMs = 0,
      veri3fyResult = \<lparr>stage1_syntax = False, stage2_logic = False,
                       stage3_sovereignty = False, passed = False, score = 0, errors = []\<rparr>,
      scalingResult = \<lparr>scaled = False, previousScale = sc, newScale = sc, reason = []\<rparr>,
      generationResult = \<lparr>generated = False, artifacts = [], gr_type = []\<rparr>,
      learningResult = \<lparr>learned = False, lr_patterns = 0, improvementDelta = 0,
                        lr_modelVersion = []\<rparr>,
      status = Running, confidence = 0, roi = 0\<rparr>"

definition buildPayload :: "int \<Rightarrow> SLVSSRunner \<Rightarrow> payload" where
  "buildPayload now r =
     [(''iteration'', Num (of_nat (iteration r))),
      (''scale'', Num (currentScale (scaling r))),
      (''learnerVersion'', Str (modelVersion (learner r))),
      (''successRate'',
         Num (if iteration r > 0 then of_nat (totalPassed r) / of_nat (iteration r) else 0)),
      (''avgConfidence'',
         Num (if iteration r > 0 then confidenceSum r / of_nat (iteration r) else 0)),
      (''avgROI'', Num (if iteration r > 0 then roiSum r / of_nat (iteration r) else 0)),
      (''timestamp'', Num (of_int now)),
      (''ark95xNode'', Str ''SLVSS-ARK95X-v2'')]"

definition computeROI :: "js_builtins \<Rightarrow> number \<Rightarrow> number \<Rightarrow> number" where
  "computeROI js conf sc =
     (let base = conf * 100;
          multiplier = log2 js (sc + 1) + 1
      in toFixed 2 (base * multiplier))"

text \<open>The two objects handed to the learner: the verification result, and \<^verbatim>\<open>{ vResult, scale }\<close>.\<close>

definition failure_data :: "VERI3FYResult \<Rightarrow> data" where
  "failure_data v =
     [(''stage1_syntax'', Val (Bool (stage1_syntax v))),
      (''stage2_logic'', Val (Bool (stage2_logic v))),
      (''stage3_sovereignty'', Val (Bool (stage3_sovereignty v))),
      (''passed'', Val (Bool (passed v))),
      (''score'', Val (Num (score v))),
      (''errors'', Msgs (errors v))]"

definition success_data :: "VERI3FYResult \<Rightarrow> number \<Rightarrow> data" where
  "success_data v sc = [(''vResult'', Val Obj), (''scale'', Val (Num sc))]"

definition tick_try ::
    "js_builtins \<Rightarrow> TickEnv \<Rightarrow> SLVSSRunner \<Rightarrow> LoopIteration
      \<Rightarrow> (SLVSSRunner \<times> LoopIteration) + (SLVSSRunner \<times> LoopIteration)" where
  "tick_try js env r it =
     (if fault env = Some VerifyPhase then Inl (r, it)
      else
        let p = buildPayload (clock_payload env) r;
            (vResult, v') = verify js (clock_verify env) p (veri3fy r);
            it1 = it\<lparr>veri3fyResult := vResult, confidence := score vResult\<rparr>;
            r1 = r\<lparr>veri3fy := v', confidenceSum := confidenceSum r + score vResult\<rparr>
        in if \<not> passed vResult then
             let it2 = it1\<lparr>status := Failed\<rparr>;
                 r2 = r1\<lparr>totalFailed := totalFailed r1 + 1\<rparr>
             in if learnFromFailures (config r2) then
                  (if fault env = Some LearnPhase then Inl (r2, it2)
                   else
                     let (lResult, l') =
                           ingest js (clock_learn env)
                             \<lparr>ii_type = Failure, ii_data = failure_data vResult,
                              ii_iteration = iteration r2\<rparr> (learner r2)
                     in Inr (r2\<lparr>learner := l'\<rparr>, it2\<lparr>learningResult := lResult\<rparr>))
                else Inr (r2, it2)
           else
             let r2 = r1\<lparr>totalPassed := totalPassed r1 + 1\<rparr>
             in if autoScale (config r2) \<and> fault env = Some ScalePhase then Inl (r2, it1)
                else
                  let (r3, it3) =
                        (if autoScale (config r2) then
                           let (sResult, s') =
                                 scale \<lparr>si_score = score vResult,
                                        si_iteration = int (iteration r2),
                                        si_history = history r2\<rparr> (scaling r2);
                               it' = it1\<lparr>scalingResult := sResult\<rparr>
                           in (r2\<lparr>scaling := s'\<rparr>,
                               if scaled sResult then it'\<lparr>status := Scaled\<rparr> else it')
                         else (r2, it1))
                  in if autoGenerate (config r3) \<and> fault env = Some GeneratePhase
                     then Inl (r3, it3)
                     else
                       let (r4, it4) =
                             (if autoGenerate (config r3) then
                                let (gResult, g') =
                                      generate \<lparr>gi_iteration = int (iteration r3),
                                                gi_scale = currentScale (scaling r3),
                                                gi_confidence = score vResult,
                                                gi_history = history r3\<rparr> (generator r3);
                                    it' = it3\<lparr>generationResult := gResult,
                                             roi := computeROI js (score vResult)
                                                      (currentScale (scaling r3))\<rparr>
                                in (r3\<lparr>generator := g', roiSum := roiSum r3 + roi it',
                                       totalGenerated :=
                                         totalGenerated r3 + length (artifacts gResult)\<rparr>,
                                    it')
                              else (r3, it3))
                       in if fault env = Some LearnPhase then Inl (r4, it4)
                          else
                            let (lResult, l') =
                                  ingest js (clock_learn env)
                                    \<lparr>ii_type = Success,
                                     ii_data = success_data vResult
                                                 (currentScale (scaling r4)),
                                     ii_iteration = iteration r4\<rparr> (learner r4);
                                it5 = it4\<lparr>learningResult := lResult\<rparr>
                            in Inr (r4\<lparr>learner := l'\<rparr>,
                                    if status it5 = Running then it5\<lparr>status := Passed\<rparr>
                                    else it5))"

definition stop :: "SLVSSRunner \<Rightarrow> SLVSSRunner" where
  "stop r = r\<lparr>running := False, loopTimer := False\<rparr>"

text \<open>
  One call of \<^verbatim>\<open>tick\<close>: the new state, and the finalized record when the tick ran
  (\<open>None\<close> when a guard returned early).
\<close>

definition tick :: "js_builtins \<Rightarrow> TickEnv \<Rightarrow> SLVSSRunner \<Rightarrow> SLVSSRunner \<times> LoopIteration option" where
  "tick js env r =
     (if \<not> running r then (r, None)
      else if maxIterations (config r) > 0 \<and> iteration r \<ge> maxIterations (config r)
      then (stop r, None)
      else
        let r1 = r\<lparr>iteration := iteration r + 1\<rparr>;
            iterObj = new_iteration (iteration r1) (clock_start env) (currentScale (scaling r1));
            (r2, it2) =
              (case tick_try js env r1 iterObj of
                 Inr x \<Rightarrow> x
               | Inl (r', it') \<Rightarrow>
                   (r'\<lparr>totalFailed := totalFailed r' + 1\<rparr>, it'\<lparr>status := Failed\<rparr>));
            it3 = it2\<lparr>completedAt := Some (clock_end env),
                     durationMs := clock_end env - clock_start env\<rparr>;
            h = history r2 @ [it3];
            r3 = r2\<lparr>history := (if length h > 100 then tl h else h)\<rparr>;
            r4 = (if running r3 then r3\<lparr>loopTimer := True\<rparr> else r3)
        in (r4, Some it3))"

definition start :: "js_builtins \<Rightarrow> int \<Rightarrow> TickEnv \<Rightarrow> SLVSSRunner \<Rightarrow> SLVSSRunner \<times> LoopIteration option" where
  "start js now env r =
     (if running r then (r, None)
      else tick js env (r\<lparr>running := True, startTime := now\<rparr>))"

text \<open>
  The life of a runner is a sequence of events: a call of \<^verbatim>\<open>start\<close>, a call of \<^verbatim>\<open>stop\<close>,
  or the pending timer firing (which calls \<^verbatim>\<open>tick\<close>).
\<close>

datatype event = Start int TickEnv | Stop | Timer TickEnv

fun step :: "js_builtins \<Rightarrow> event \<Rightarrow> SLVSSRunner \<Rightarrow> SLVSSRunner" where
  "step js (Start now env) r = fst (start js now env r)"
| "step js Stop r = stop r"
| "step js (Timer env) r =
     (if loopTimer r then fst (tick js env (r\<lparr>loopTimer := False\<rparr>)) else r)"

definition run :: "js_builtins \<Rightarrow> event list \<Rightarrow> SLVSSRunner \<Rightarrow> SLVSSRunner" where
  "run js evs r = fold (step js) evs r"

subsection \<open>Sample values\<close>

text \<open>
  Concrete values on which the properties below are evaluated. \<open>sample_builtins\<close> is a
  stand-in for the conversions of the language: its \<open>log2\<close> is the integer part of the
  binary logarithm (exact on powers of two), its \<open>NumberToString\<close> prints the integer
  part, and its \<open>StringToNumber\<close> reads no string as a number; the examples apply them
  to powers of two and to integers only, and convert no string.
\<close>

fun ilog2 :: "nat \<Rightarrow> nat" where
  "ilog2 n = (if n < 2 then 0 else 1 + ilog2 (n div 2))"

declare ilog2.simps [simp del]

definition sample_builtins :: js_builtins where
  "sample_builtins =
     \<lparr>StringToNumber = (\<lambda>s. None),
      NumberToString = (\<lambda>x. show_int \<lfloor>x\<rfloor>),
      log2 = (\<lambda>x. of_nat (ilog2 (nat \<lfloor>x\<rfloor>)))\<rparr>"

text \<open>A tick whose clock readings are one millisecond apart and in which nothing throws.\<close>

definition sample_env :: TickEnv where
  "sample_env =
     \<lparr>clock_start = 1700000000000, clock_payload = 1700000000001,
      clock_verify = 1700000000002, clock_learn = 1700000000003,
      clock_end = 1700000000004, fault = None\<rparr>"

text \<open>A history of three finished iterations that passed.\<close>

definition passed_iteration :: "nat \<Rightarrow> LoopIteration" where
  "passed_iteration n = (new_iteration n 1700000000000 1)\<lparr>status := Passed\<rparr>"

definition three_passes :: "LoopIteration list" where
  "three_passes = [passed_iteration 1, passed_iteration 2, passed_iteration 3]"

text \<open>Eighteen boosts (iterations 10, 20, ..., 180, score 1) take a default engine to 1024.\<close>

definition eighteen_boosts :: "ScaleInput list" where
  "eighteen_boosts =
     map (\<lambda>n. \<lparr>si_score = 1, si_iteration = 10 * int n, si_history = []\<rparr>) [1..<19]"

text \<open>
  The snapshot of the end-to-end scenario, without and with a learner version, verified
  two milliseconds after its timestamp.
\<close>

definition scenario_fields :: payload where
  "scenario_fields =
     [(''iteration'', Num 1), (''scale'', Num 1), (''ark95xNode'', Str ''SLVSS-ARK95X-v2''),
      (''avgConfidence'', Num (9 / 10)), (''successRate'', Num 1), (''avgROI'', Num 10),
      (''timestamp'', Num 1700000000000)]"

definition scenario_payload :: payload where
  "scenario_payload = scenario_fields @ [(''learnerVersion'', Str ''1.0'')]"

text \<open>
  A snapshot without \<^verbatim>\<open>avgROI\<close>, with an object for \<^verbatim>\<open>successRate\<close> and \<^verbatim>\<open>NaN\<close> for
  \<^verbatim>\<open>avgConfidence\<close>, stamped ten seconds before 1700000000000.
\<close>

definition partial_payload :: payload where
  "partial_payload =
     [(''iteration'', Num 3), (''successRate'', Obj), (''avgConfidence'', NaN),
      (''timestamp'', Num 1699999990000)]"

text \<open>
  A runner with the default configuration after \<^verbatim>\<open>start\<close> and two timer ticks: three
  iterations that passed.
\<close>

definition runner_after_three :: SLVSSRunner where
  "runner_after_three =
     run sample_builtins
       [Start 1700000000000 sample_env, Timer sample_env, Timer sample_env]
       (new_SLVSSRunner default_LoopConfig 1700000000000)"

text \<open>A sequence of observations, each with the clock reading of its ingest.\<close>

fun ingest_all ::
    "js_builtins \<Rightarrow> (int \<times> IngestInput) list \<Rightarrow> LearningCore \<Rightarrow> LearningCore" where
  "ingest_all js [] lc = lc"
| "ingest_all js ((now, inp) # obs) lc = ingest_all js obs (snd (ingest js now inp lc))"

text \<open>
  A learning core of capacity 5 and six successes as the runner reports them, at the
  scales 1, 3, 7, 15, 31 and 63 (six different \<^verbatim>\<open>scale_log2\<close> features).
\<close>

definition small_core :: LearningCore where
  "small_core = new_LearningCore (default_LearningConfig\<lparr>memorySize := 5\<rparr>)"

definition observation :: "nat \<Rightarrow> number \<Rightarrow> int \<times> IngestInput" where
  "observation n s =
     (1700000000000,
      \<lparr>ii_type = Success, ii_data = [(''vResult'', Val Obj), (''scale'', Val (Num s))],
       ii_iteration = n\<rparr>)"

definition five_observations :: "(int \<times> IngestInput) list" where
  "five_observations =
     [observation 1 1, observation 2 3, observation 3 7, observation 4 15, observation 5 31]"

definition six_observations :: "(int \<times> IngestInput) list" where
  "six_observations = five_observations @ [observation 6 63]"

section \<open>Properties\<close>

subsection \<open>Rounding to a fixed number of decimals\<close>

lemma toFixed_mono: "x \<le> y \<Longrightarrow> toFixed d x \<le> toFixed d y"
proof -
  assume xy: "x \<le> y"
  have p: "(0::rat) < 10 ^ d" by simp
  consider "x < 0" "y < 0" | "x < 0" "0 \<le> y" | "0 \<le> x" "0 \<le> y" using xy by linarith
  then show ?thesis
  proof cases
    case 1
    have "- y * 10 ^ d + 1 / 2 \<le> - x * 10 ^ d + 1 / 2" using xy p by simp
    then have "\<lfloor>- y * 10 ^ d + 1 / 2\<rfloor> \<le> \<lfloor>- x * 10 ^ d + 1 / 2\<rfloor>" by (rule floor_mono)
    then have "(of_int \<lfloor>- y * 10 ^ d + 1 / 2\<rfloor> :: rat) / 10 ^ d \<le> of_int \<lfloor>- x * 10 ^ d + 1 / 2\<rfloor> / 10 ^ d"
      using p by (simp add: divide_right_mono)
    with 1 show ?thesis by (simp add: toFixed_def)
  next
    case 2
    have "x * 10 ^ d \<le> 0" using 2 p by (simp add: mult_le_0_iff)
    then have a: "0 \<le> - x * 10 ^ d + 1 / 2" by simp
    have b: "0 \<le> y * 10 ^ d + 1 / 2" using 2 p by (simp add: add_nonneg_nonneg)
    have a': "(0::rat) \<le> of_int \<lfloor>- x * 10 ^ d + 1 / 2\<rfloor> / 10 ^ d" using a p by simp
    have b': "(0::rat) \<le> of_int \<lfloor>y * 10 ^ d + 1 / 2\<rfloor> / 10 ^ d" using b p by simp
    have "toFixed d x = - (of_int \<lfloor>- x * 10 ^ d + 1 / 2\<rfloor> / 10 ^ d)"
      using 2 by (simp only: toFixed_def if_True)
    moreover have "toFixed d y = of_int \<lfloor>y * 10 ^ d + 1 / 2\<rfloor> / 10 ^ d"
      using 2 by (simp only: toFixed_def not_less [symmetric] if_False)
    ultimately show ?thesis using a' b' by linarith
  next
    case 3
    have "x * 10 ^ d + 1 / 2 \<le> y * 10 ^ d + 1 / 2" using xy p by simp
    then have "\<lfloor>x * 10 ^ d + 1 / 2\<rfloor> \<le> \<lfloor>y * 10 ^ d + 1 / 2\<rfloor>" by (rule floor_mono)
    then have "(of_int \<lfloor>x * 10 ^ d + 1 / 2\<rfloor> :: rat) / 10 ^ d \<le> of_int \<lfloor>y * 10 ^ d + 1 / 2\<rfloor> / 10 ^ d"
      using p by (simp add: divide_right_mono)
    with 3 show ?thesis by (simp add: toFixed_def)
  qed
qed

lemma toFixed_of_int: "toFixed d (of_int k) = of_int k"
proof -
  have e: "(of_int k :: rat) * 10 ^ d = of_int (k * 10 ^ d)" by simp
  have f: "\<lfloor>(of_int (k * 10 ^ d) :: rat) + 1 / 2\<rfloor> = k * 10 ^ d" by linarith 
  have g: "- (of_int k :: rat) * 10 ^ d = of_int (- k * 10 ^ d)" by simp
  have h: "\<lfloor>(of_int (- k * 10 ^ d) :: rat) + 1 / 2\<rfloor> = - k * 10 ^ d" by linarith
  show ?thesis unfolding toFixed_def e f g h by simp
qed

lemma toFixed_one: "toFixed d 1 = 1"
  using toFixed_of_int [of d 1] by simp

lemma toFixed_ge_one: "1 \<le> x \<Longrightarrow> 1 \<le> toFixed d x"
  using toFixed_mono [of 1 x d] by (simp add: toFixed_one)

lemma toFixed_le_grid: "toFixed d m = m \<Longrightarrow> x \<le> m \<Longrightarrow> toFixed d x \<le> m"
  using toFixed_mono [of x m d] by simp

lemma toFixed_grid: "toFixed d (of_int k / 10 ^ d) = of_int k / 10 ^ d"
proof -
  have p: "(0::rat) < 10 ^ d" by simp
  have f: "\<lfloor>(of_int j :: rat) + 1 / 2\<rfloor> = j" for j by linarith
  show ?thesis
  proof (cases "k < 0")
    case True
    then have n: "(of_int k :: rat) / 10 ^ d < 0" using p by (simp add: divide_neg_pos)
    have "- ((of_int k :: rat) / 10 ^ d) * 10 ^ d + 1 / 2 = of_int (- k) + 1 / 2" by simp
    then have "\<lfloor>- ((of_int k :: rat) / 10 ^ d) * 10 ^ d + 1 / 2\<rfloor> = - k" using f [of "- k"] by simp
    with n show ?thesis by (simp add: toFixed_def)
  next
    case False
    then have n: "\<not> (of_int k :: rat) / 10 ^ d < 0" using p by (simp add: not_less)
    have "((of_int k :: rat) / 10 ^ d) * 10 ^ d + 1 / 2 = of_int k + 1 / 2" by simp
    then have "\<lfloor>((of_int k :: rat) / 10 ^ d) * 10 ^ d + 1 / 2\<rfloor> = k" using f [of k] by simp
    with n show ?thesis by (simp only: toFixed_def if_False)
  qed
qed

lemma toFixed_idem: "toFixed d (toFixed d x) = toFixed d x"
proof (cases "x < 0")
  case True
  then have "toFixed d x = of_int (- \<lfloor>- x * 10 ^ d + 1 / 2\<rfloor>) / 10 ^ d"
    by (simp add: toFixed_def)
  then show ?thesis by (simp only: toFixed_grid)
next
  case False
  then have "toFixed d x = of_int \<lfloor>x * 10 ^ d + 1 / 2\<rfloor> / 10 ^ d"
    by (simp add: toFixed_def)
  then show ?thesis by (simp only: toFixed_grid)
qed




lemma toFixed_4_one: "toFixed 4 (35 / 100 + 30 / 100 + 35 / 100) = 1"
  using toFixed_one [of 4] by simp

lemma toFixed_6_seed: "toFixed 6 (6 / 10) = 6 / 10"
  by code_simp

subsection \<open>The bounds of the scale\<close>

lemma policy_updateStreaks: "policy (updateStreaks h e) = policy e"
  by (simp add: updateStreaks_def Let_def split: prod.splits)

lemma currentScale_updateStreaks: "currentScale (updateStreaks h e) = currentScale e"
  by (simp add: updateStreaks_def Let_def split: prod.splits)

lemma policy_scale: "policy (snd (scale inp e)) = policy e"
  by (simp add: scale_def Let_def policy_updateStreaks split: prod.splits)

lemma scale_bounds:
  assumes pol: "1 \<le> maxScale (policy e)" "toFixed 4 (maxScale (policy e)) = maxScale (policy e)"
      "1 \<le> growthFactor (policy e)" "decayFactor (policy e) \<le> 1"
    and inv: "1 \<le> currentScale e" "currentScale e \<le> maxScale (policy e)"
  shows "1 \<le> currentScale (snd (scale inp e)) \<and> currentScale (snd (scale inp e)) \<le> maxScale (policy e)"
proof -
  let ?c = "currentScale e" and ?M = "maxScale (policy e)"
  have g: "1 \<le> ?c * growthFactor (policy e)"
    using inv(1) pol(3) by (metis mult_mono mult_1 zero_le_one order_trans)
  have u1: "1 \<le> toFixed 4 (min (?c * growthFactor (policy e)) ?M)"
    using g pol(1) by (intro toFixed_ge_one) simp
  have u2: "toFixed 4 (min (?c * growthFactor (policy e)) ?M) \<le> ?M"
    using pol(2) by (intro toFixed_le_grid) simp_all
  have "?c * decayFactor (policy e) \<le> ?c * 1"
    using inv(1) pol(4) by (intro mult_left_mono) simp_all
  then have d: "max (?c * decayFactor (policy e)) 1 \<le> ?M" using inv(2) pol(1) by simp
  have d1: "1 \<le> toFixed 4 (max (?c * decayFactor (policy e)) 1)"
    by (intro toFixed_ge_one) simp
  have d2: "toFixed 4 (max (?c * decayFactor (policy e)) 1) \<le> ?M"
    using pol(2) d by (intro toFixed_le_grid) simp_all
  have "1 \<le> ?c * (3 / 2)" using inv(1) by simp
  then have b1: "1 \<le> toFixed 4 (min (?c * (3 / 2)) ?M)"
    using pol(1) by (intro toFixed_ge_one) simp
  have b2: "toFixed 4 (min (?c * (3 / 2)) ?M) \<le> ?M"
    using pol(2) by (intro toFixed_le_grid) simp_all
  show ?thesis
    using u1 u2 d1 d2 b1 b2 inv
    by (simp add: scale_def Let_def policy_updateStreaks currentScale_updateStreaks split: prod.splits)
qed

lemma scale_grid:
  "toFixed 4 (currentScale e) = currentScale e \<Longrightarrow>
   toFixed 4 (currentScale (snd (scale inp e))) = currentScale (snd (scale inp e))"
  by (simp add: scale_def Let_def currentScale_updateStreaks toFixed_idem split: prod.splits)

lemma scale_calls_grid:
  "toFixed 4 (currentScale e) = currentScale e \<Longrightarrow>
   toFixed 4 (currentScale (scale_calls inps e)) = currentScale (scale_calls inps e)"
  unfolding scale_calls_def by (induction inps arbitrary: e) (simp_all add: scale_grid)

lemma policy_scale_calls: "policy (scale_calls inps e) = policy e"
  unfolding scale_calls_def by (induction inps arbitrary: e) (simp_all add: policy_scale)

lemma scale_calls_bounds:
  assumes "1 \<le> maxScale (policy e)" "toFixed 4 (maxScale (policy e)) = maxScale (policy e)"
      "1 \<le> growthFactor (policy e)" "decayFactor (policy e) \<le> 1"
    and "1 \<le> currentScale e" "currentScale e \<le> maxScale (policy e)"
  shows "1 \<le> currentScale (scale_calls inps e) \<and> currentScale (scale_calls inps e) \<le> maxScale (policy e)"
  using assms
proof (induction inps arbitrary: e)
  case Nil
  then show ?case by (simp add: scale_calls_def)
next
  case (Cons inp inps)
  have b: "1 \<le> currentScale (snd (scale inp e)) \<and> currentScale (snd (scale inp e)) \<le> maxScale (policy e)"
    using Cons.prems by (rule scale_bounds)
  have "1 \<le> currentScale (scale_calls inps (snd (scale inp e))) \<and>
        currentScale (scale_calls inps (snd (scale inp e))) \<le> maxScale (policy (snd (scale inp e)))"
    using Cons.prems b by (intro Cons.IH) (simp_all add: policy_scale)
  then show ?case by (simp add: scale_calls_def policy_scale)
qed

text \<open>
  Claim C2, as amended. For a policy whose maximum is at least 1 and has at most four
  decimals, whose growth factor is at least 1 and whose decay factor is at most 1 (the
  default policy is one), the scale after any sequence of calls of \<^verbatim>\<open>scale\<close> on a new
  engine lies between 1 and the configured maximum, whatever the scores, iteration
  numbers and histories of the calls.
\<close>

theorem scale_stays_in_bounds:
  assumes "1 \<le> maxScale pol" and "toFixed 4 (maxScale pol) = maxScale pol"
    and "1 \<le> growthFactor pol" and "decayFactor pol \<le> 1"
  shows "1 \<le> currentScale (scale_calls inps (new_ScalingEngine pol)) \<and>
         currentScale (scale_calls inps (new_ScalingEngine pol)) \<le> maxScale pol"
  using scale_calls_bounds [of "new_ScalingEngine pol" inps] assms
  by (simp add: new_ScalingEngine_def)

text \<open>
  With the maximum 1.00006 and everything else at its default, the boost of iteration 10
  clamps 1.5 to 1.00006 and then rounds it to 1.0001, which is above the maximum.
\<close>

theorem scale_out_of_bounds_counterexample:
  "\<not> (currentScale (scale_calls [\<lparr>si_score = 1, si_iteration = 10, si_history = []\<rparr>]
          (new_ScalingEngine (default_policy\<lparr>maxScale := 100006 / 100000\<rparr>)))
       \<le> maxScale (default_policy\<lparr>maxScale := 100006 / 100000\<rparr>))"
  by code_simp

theorem scale_stays_in_bounds_witness:
  "1 \<le> maxScale default_policy \<and>
   toFixed 4 (maxScale default_policy) = maxScale default_policy \<and>
   1 \<le> growthFactor default_policy \<and> decayFactor default_policy \<le> 1 \<and>
   1 \<le> currentScale (scale_calls
          [\<lparr>si_score = 1, si_iteration = 10, si_history = []\<rparr>,
           \<lparr>si_score = 1, si_iteration = 20, si_history = []\<rparr>]
          (new_ScalingEngine default_policy)) \<and>
   currentScale (scale_calls
          [\<lparr>si_score = 1, si_iteration = 10, si_history = []\<rparr>,
           \<lparr>si_score = 1, si_iteration = 20, si_history = []\<rparr>]
          (new_ScalingEngine default_policy)) \<le> maxScale default_policy"
proof -
  have h1: "1 \<le> maxScale default_policy" by code_simp
  have h2: "toFixed 4 (maxScale default_policy) = maxScale default_policy" by code_simp
  have h3: "1 \<le> growthFactor default_policy" by code_simp
  have h4: "decayFactor default_policy \<le> 1" by code_simp
  show ?thesis
    using h1 h2 h3 h4 scale_stays_in_bounds [OF h1 h2 h3 h4] by blast
qed

subsection \<open>The scale-up rule\<close>




subsection \<open>The boost at the maximum\<close>

lemma length_push_event: "length evs \<le> 50 \<Longrightarrow> length (push_event ev evs) \<le> 50"
  by (simp add: push_event_def Let_def)

lemma push_event_explicit:
  "length evs \<le> 50 \<Longrightarrow>
   push_event ev evs = (if length evs < 50 then evs @ [ev] else tl evs @ [ev])"
  by (cases evs) (auto simp: push_event_def Let_def)

lemma scaleHistory_updateStreaks: "scaleHistory (updateStreaks h e) = scaleHistory e"
  by (simp add: updateStreaks_def Let_def split: prod.splits)

lemma scaleHistory_scale_le:
  "length (scaleHistory e) \<le> 50 \<Longrightarrow> length (scaleHistory (snd (scale inp e))) \<le> 50"
  by (simp add: scale_def Let_def scaleHistory_updateStreaks length_push_event
      split: prod.splits)

lemma scaleHistory_scale_calls_le:
  "length (scaleHistory e) \<le> 50 \<Longrightarrow> length (scaleHistory (scale_calls inps e)) \<le> 50"
  unfolding scale_calls_def by (induction inps arbitrary: e) (simp_all add: scaleHistory_scale_le)

lemma currentScale_new:
  "toFixed 4 (currentScale (new_ScalingEngine pol)) = currentScale (new_ScalingEngine pol)"
  by (simp add: new_ScalingEngine_def toFixed_one)

text \<open>
  Claim C10, as amended. Let the engine be in a state reached from a new engine by any
  calls of \<^verbatim>\<open>scale\<close>, with the current scale equal to the configured maximum, and let that
  maximum not be negative. A call at a positive multiple-of-10 iteration with score at
  least 0.95, on which the decay rule does not apply, reports \<open>scaled\<close> with the new scale
  equal to the previous scale, both the maximum, and appends an entry to the event log
  although the scale did not change: the log, which holds at most 50 entries, is the old
  log followed by the new entry, without its first entry if it was full. (The scale-up
  rule cannot fire, whatever the pass streak: the scale is not below the maximum.)
\<close>

theorem boost_at_maximum:
  assumes "e = scale_calls inps (new_ScalingEngine pol)"
    and "currentScale e = maxScale pol"
    and "0 \<le> maxScale pol"
    and "0 < si_iteration inp" and "si_iteration inp mod 10 = 0"
    and "95 / 100 \<le> si_score inp"
    and "\<not> (decayOnFailure pol \<and> 3 \<le> failStreak (updateStreaks (si_history inp) e)
            \<and> 1 < currentScale e)"
  shows "scaled (fst (scale inp e)) \<and>
         previousScale (fst (scale inp e)) = maxScale pol \<and>
         newScale (fst (scale inp e)) = previousScale (fst (scale inp e)) \<and>
         currentScale (snd (scale inp e)) = currentScale e \<and>
         length (scaleHistory e) \<le> 50 \<and>
         scaleHistory (snd (scale inp e)) =
           (if length (scaleHistory e) < 50
            then scaleHistory e
                   @ [\<lparr>ev_iteration = si_iteration inp, ev_scale = maxScale pol,
                       ev_reason = ''Quantum boost''\<rparr>]
            else tl (scaleHistory e)
                   @ [\<lparr>ev_iteration = si_iteration inp, ev_scale = maxScale pol,
                       ev_reason = ''Quantum boost''\<rparr>])"
proof -
  let ?ev = "\<lparr>ev_iteration = si_iteration inp, ev_scale = maxScale pol,
              ev_reason = ''Quantum boost''\<rparr>"
  have pol: "policy e = pol"
    using assms(1) by (simp add: policy_scale_calls new_ScalingEngine_def)
  have grid: "toFixed 4 (currentScale e) = currentScale e"
    using assms(1) by (simp add: scale_calls_grid currentScale_new)
  have len: "length (scaleHistory e) \<le> 50"
    using assms(1) by (simp add: scaleHistory_scale_calls_le new_ScalingEngine_def)
  have "maxScale pol \<le> maxScale pol * (3 / 2)" using assms(3) by simp
  then have m: "min (maxScale pol * (3 / 2)) (maxScale pol) = maxScale pol" by simp
  have r: "toFixed 4 (min (currentScale e * (3 / 2)) (maxScale pol)) = maxScale pol"
    using m grid assms(2) by simp
  have s: "scaled (fst (scale inp e)) \<and>
         previousScale (fst (scale inp e)) = maxScale pol \<and>
         newScale (fst (scale inp e)) = previousScale (fst (scale inp e)) \<and>
         currentScale (snd (scale inp e)) = currentScale e \<and>
         scaleHistory (snd (scale inp e)) = push_event ?ev (scaleHistory e)"
    using assms(2,4-7) pol r
    by (auto simp: scale_def Let_def policy_updateStreaks currentScale_updateStreaks
        scaleHistory_updateStreaks split: prod.splits)
  show ?thesis
    using s len push_event_explicit [OF len, of ?ev] by simp
qed

theorem boost_at_maximum_witness:
  "currentScale (scale_calls eighteen_boosts (new_ScalingEngine default_policy))
     = maxScale default_policy \<and>
   0 \<le> maxScale default_policy \<and>
   0 < si_iteration \<lparr>si_score = 1, si_iteration = 190, si_history = []\<rparr> \<and>
   si_iteration \<lparr>si_score = 1, si_iteration = 190, si_history = []\<rparr> mod 10 = 0 \<and>
   95 / 100 \<le> si_score \<lparr>si_score = 1, si_iteration = 190, si_history = []\<rparr> \<and>
   length (scaleHistory (scale_calls eighteen_boosts (new_ScalingEngine default_policy))) = 18 \<and>
   scaled (fst (scale \<lparr>si_score = 1, si_iteration = 190, si_history = []\<rparr>
                  (scale_calls eighteen_boosts (new_ScalingEngine default_policy)))) \<and>
   previousScale (fst (scale \<lparr>si_score = 1, si_iteration = 190, si_history = []\<rparr>
                  (scale_calls eighteen_boosts (new_ScalingEngine default_policy)))) = 1024 \<and>
   newScale (fst (scale \<lparr>si_score = 1, si_iteration = 190, si_history = []\<rparr>
                  (scale_calls eighteen_boosts (new_ScalingEngine default_policy)))) = 1024 \<and>
   scaleHistory (snd (scale \<lparr>si_score = 1, si_iteration = 190, si_history = []\<rparr>
        (scale_calls eighteen_boosts (new_ScalingEngine default_policy)))) =
     scaleHistory (scale_calls eighteen_boosts (new_ScalingEngine default_policy))
       @ [\<lparr>ev_iteration = 190, ev_scale = 1024, ev_reason = ''Quantum boost''\<rparr>]"
proof -
  let ?inp = "\<lparr>si_score = 1, si_iteration = 190, si_history = []\<rparr>"
  let ?e = "scale_calls eighteen_boosts (new_ScalingEngine default_policy)"
  have h2: "currentScale ?e = maxScale default_policy" by code_simp
  have h3: "0 \<le> maxScale default_policy" by code_simp
  have h4: "0 < si_iteration ?inp" by simp
  have h5: "si_iteration ?inp mod 10 = 0" by simp
  have h6: "95 / 100 \<le> si_score ?inp" by simp
  have h7: "\<not> (decayOnFailure default_policy
                \<and> 3 \<le> failStreak (updateStreaks (si_history ?inp) ?e)
                \<and> 1 < currentScale ?e)"
    by code_simp
  have m: "maxScale default_policy = 1024" by code_simp
  have l: "length (scaleHistory ?e) = 18" by code_simp
  show ?thesis
    using h2 h3 h4 h5 h6 m l boost_at_maximum [OF refl h2 h3 h4 h5 h6 h7] by simp
qed

text \<open>
  With the maximum \<open>-1\<close> and everything else at its default, the boost of iteration 10
  takes a new engine to \<open>min 1.5 (-1) = -1\<close>, the maximum. The boost of iteration 20 then
  computes \<open>min (-1.5) (-1) = -1.5\<close>: the new scale differs from the previous one.
\<close>

theorem boost_negative_maximum_counterexample:
  "currentScale (scale_calls [\<lparr>si_score = 1, si_iteration = 10, si_history = []\<rparr>]
                   (new_ScalingEngine (default_policy\<lparr>maxScale := - 1\<rparr>)))
     = maxScale (default_policy\<lparr>maxScale := - 1\<rparr>) \<and>
   of_nat (passStreak (updateStreaks []
             (scale_calls [\<lparr>si_score = 1, si_iteration = 10, si_history = []\<rparr>]
                (new_ScalingEngine (default_policy\<lparr>maxScale := - 1\<rparr>)))))
     < minPassStreak (default_policy\<lparr>maxScale := - 1\<rparr>) \<and>
   failStreak (updateStreaks []
             (scale_calls [\<lparr>si_score = 1, si_iteration = 10, si_history = []\<rparr>]
                (new_ScalingEngine (default_policy\<lparr>maxScale := - 1\<rparr>)))) < 3 \<and>
   fst (scale \<lparr>si_score = 1, si_iteration = 20, si_history = []\<rparr>
          (scale_calls [\<lparr>si_score = 1, si_iteration = 10, si_history = []\<rparr>]
             (new_ScalingEngine (default_policy\<lparr>maxScale := - 1\<rparr>)))) =
     \<lparr>scaled = True, previousScale = - 1, newScale = - (3 / 2), reason = ''Quantum boost''\<rparr>"
  by code_simp

subsection \<open>The artifact generator below the lowest gate\<close>

lemma templates_minConfidence: "\<forall>t \<in> set templates. 85 / 100 \<le> minConfidence t"
  by (simp add: templates_def)

lemma fire_low: "gi_confidence inp < 85 / 100 \<Longrightarrow> foldl (fire inp) acc templates = acc"
  by (simp add: templates_def fire_def)

text \<open>
  Claim C7. A call of \<^verbatim>\<open>generate\<close> with confidence 0.80 and scale 1 produces no
  template-gated artifact: every template asks for a confidence of at least 0.85, and the
  loop over the templates leaves the artifact list empty. If the iteration number is a
  positive multiple of 5, the call produces exactly one artifact, the summary, and
  records the summary type; otherwise it produces nothing and records \<open>none\<close>.
\<close>

theorem generate_low_confidence:
  assumes "gi_confidence inp = 80 / 100" and "gi_scale inp = 1"
  shows "(\<forall>t \<in> set templates. 85 / 100 \<le> minConfidence t) \<and>
         foldl (fire inp) ([], ''none'') templates = ([], ''none'') \<and>
         (if 0 < gi_iteration inp \<and> gi_iteration inp mod 5 = 0
          then artifacts (fst (generate inp g)) = [genSovereigntySummary inp] \<and>
               gr_type (fst (generate inp g)) = ''sovereignty_summary'' \<and>
               generated (fst (generate inp g))
          else artifacts (fst (generate inp g)) = [] \<and>
               gr_type (fst (generate inp g)) = ''none'' \<and>
               \<not> generated (fst (generate inp g)))"
proof -
  have low: "gi_confidence inp < 85 / 100" using assms(1) by simp
  have f: "foldl (fire inp) ([], ''none'') templates = ([], ''none'')"
    using low by (rule fire_low)
  show ?thesis
    using f templates_minConfidence by (simp add: generate_def Let_def)
qed

theorem generate_low_confidence_witness:
  "gi_confidence \<lparr>gi_iteration = 5, gi_scale = 1, gi_confidence = 80 / 100, gi_history = three_passes\<rparr> = 80 / 100 \<and>
   gi_scale \<lparr>gi_iteration = 5, gi_scale = 1, gi_confidence = 80 / 100, gi_history = three_passes\<rparr> = 1 \<and>
   artifacts (fst (generate \<lparr>gi_iteration = 5, gi_scale = 1, gi_confidence = 80 / 100, gi_history = three_passes\<rparr> new_AutoGenerator))
     = [SovereigntySummary 5 1 (80 / 100) [Passed, Passed, Passed] 0] \<and>
   gr_type (fst (generate \<lparr>gi_iteration = 5, gi_scale = 1, gi_confidence = 80 / 100, gi_history = three_passes\<rparr> new_AutoGenerator))
     = ''sovereignty_summary''"
proof -
  let ?inp = "\<lparr>gi_iteration = 5, gi_scale = 1, gi_confidence = 80 / 100, gi_history = three_passes\<rparr>"
  have h1: "gi_confidence ?inp = 80 / 100" by simp
  have h2: "gi_scale ?inp = 1" by simp
  have s: "genSovereigntySummary ?inp = SovereigntySummary 5 1 (80 / 100) [Passed, Passed, Passed] 0"
    by code_simp
  show ?thesis
    using s generate_low_confidence [OF h1 h2, of new_AutoGenerator] by simp
qed

subsection \<open>Stage 2 of the gate on missing values\<close>

text \<open>
  Claim C9, as amended. Stage 2 appends no error and returns true for any payload in which
  \<^verbatim>\<open>successRate\<close>, \<^verbatim>\<open>avgConfidence\<close> and \<^verbatim>\<open>avgROI\<close> are absent or hold a value whose
  numeric conversion is \<^verbatim>\<open>NaN\<close>, the timestamp either converts to a number that is at most
  60 seconds older than the evaluation time or converts to \<^verbatim>\<open>NaN\<close> (an absent timestamp
  does), and the iteration is not a negative number: every comparison of stage 2 against
  \<^verbatim>\<open>NaN\<close> is false.
\<close>

theorem stage2_accepts_missing:
  assumes "to_number js (field p ''successRate'') = None"
    and "to_number js (field p ''avgConfidence'') = None"
    and "to_number js (field p ''avgROI'') = None"
    and "case to_number js (field p ''timestamp'') of
           None \<Rightarrow> True | Some t \<Rightarrow> of_int now - t \<le> 60000"
    and "\<not> (is_number (field p ''iteration'')
            \<and> js_lt (to_number js (field p ''iteration'')) (Some 0))"
  shows "stage2_logic_check js now p errs = (True, errs)"
  using assms
  by (simp add: stage2_logic_check_def Let_def check_def warn_def js_lt_def js_gt_def
      js_sub_def split: option.splits)

theorem stage2_accepts_missing_witness:
  "to_number sample_builtins (field partial_payload ''successRate'') = None \<and>
   to_number sample_builtins (field partial_payload ''avgConfidence'') = None \<and>
   to_number sample_builtins (field partial_payload ''avgROI'') = None \<and>
   to_number sample_builtins (field partial_payload ''timestamp'') = Some 1699999990000 \<and>
   field partial_payload ''iteration'' = Num 3 \<and>
   stage2_logic_check sample_builtins 1700000000000 partial_payload [] = (True, [])"
proof -
  have h1: "to_number sample_builtins (field partial_payload ''successRate'') = None"
    by code_simp
  have h2: "to_number sample_builtins (field partial_payload ''avgConfidence'') = None"
    by code_simp
  have h3: "to_number sample_builtins (field partial_payload ''avgROI'') = None"
    by code_simp
  have t: "to_number sample_builtins (field partial_payload ''timestamp'') = Some 1699999990000"
    by code_simp
  have h4: "case to_number sample_builtins (field partial_payload ''timestamp'') of
              None \<Rightarrow> True | Some t \<Rightarrow> of_int 1700000000000 - t \<le> 60000"
    by (simp add: t)
  have i: "field partial_payload ''iteration'' = Num 3" by code_simp
  have h5: "\<not> (is_number (field partial_payload ''iteration'')
              \<and> js_lt (to_number sample_builtins (field partial_payload ''iteration'')) (Some 0))"
    by (simp add: i js_lt_def)
  show ?thesis
    using h1 h2 h3 t i stage2_accepts_missing [OF h1 h2 h3 h4 h5, of "[]"] by simp
qed

text \<open>
  A payload with none of the three range fields and no iteration, whose timestamp is
  \<^verbatim>\<open>null\<close> (not a number): \<^verbatim>\<open>Date.now() - null\<close> is the evaluation time itself, the
  staleness check fails and stage 2 returns false with an error.
\<close>

theorem stage2_null_timestamp_counterexample:
  "field [(''timestamp'', Null)] ''successRate'' = Undefined \<and>
   field [(''timestamp'', Null)] ''avgConfidence'' = Undefined \<and>
   field [(''timestamp'', Null)] ''avgROI'' = Undefined \<and>
   field [(''timestamp'', Null)] ''iteration'' = Undefined \<and>
   \<not> is_number (field [(''timestamp'', Null)] ''timestamp'') \<and>
   stage2_logic_check sample_builtins 1700000000000 [(''timestamp'', Null)] [] =
     (False, [ErrMsg ''STAGE2: Payload timestamp is stale (${}s old)'' [Num 1700000000]])"
  by code_simp

subsection \<open>The end-to-end scenario\<close>

lemma stage1_ok:
  assumes "field p ''iteration'' = Num 1" and "field p ''scale'' = Num 1"
    and "field p ''ark95xNode'' = Str node" and "js_includes node ''ARK95X''"
    and "field p ''learnerVersion'' = Str ver"
    and "field p ''timestamp'' = Num t" and "0 < t"
  shows "stage1_syntax_check js p errs = (True, errs)"
  using assms
  by (simp add: stage1_syntax_check_def Let_def check_def required_def js_lt_def js_le_def)

lemma stage2_ok:
  assumes "field p ''iteration'' = Num 1"
    and "field p ''avgConfidence'' = Num (9 / 10)" and "field p ''successRate'' = Num 1"
    and "field p ''avgROI'' = Num 10"
    and "field p ''timestamp'' = Num t" and "of_int now - t \<le> 60000"
  shows "stage2_logic_check js now p errs = (True, errs)"
  using assms
  by (simp add: stage2_logic_check_def Let_def check_def warn_def js_lt_def js_gt_def
      js_sub_def)

lemma match_version_nonempty: "match_version s \<Longrightarrow> s \<noteq> []"
  by (cases s) simp_all

lemma stage3_ok:
  assumes "field p ''iteration'' = Num 1" and "field p ''scale'' = Num 1"
    and "field p ''ark95xNode'' = Str node"
    and "list_ex (\<lambda>n. js_includes node (split_head CHR ''-'' n)) validNodes"
    and "field p ''learnerVersion'' = Str ver" and "match_version ver"
    and "field p ''avgConfidence'' = Num (9 / 10)"
  shows "stage3_sovereignty_check js p errs = (True, errs)"
  using assms match_version_nonempty [of ver]
  by (simp add: stage3_sovereignty_check_def Let_def check_def js_lt_def js_gt_def)

lemma verify_ok:
  assumes "v_config v = \<lparr>stages = 3, threshold = 85 / 100, strictMode = True\<rparr>"
    and "field p ''iteration'' = Num 1" and "field p ''scale'' = Num 1"
    and "field p ''ark95xNode'' = Str node" and "js_includes node ''ARK95X''"
    and "list_ex (\<lambda>n. js_includes node (split_head CHR ''-'' n)) validNodes"
    and "field p ''learnerVersion'' = Str ver" and "match_version ver"
    and "field p ''avgConfidence'' = Num (9 / 10)" and "field p ''successRate'' = Num 1"
    and "field p ''avgROI'' = Num 10"
    and "field p ''timestamp'' = Num t" and "0 < t" and "of_int now - t \<le> 60000"
  shows "fst (verify js now p v) =
           \<lparr>stage1_syntax = True, stage2_logic = True, stage3_sovereignty = True,
            passed = True, score = 1, errors = []\<rparr>"
proof -
  have s1: "stage1_syntax_check js p [] = (True, [])"
    using assms by (intro stage1_ok) 
  have s2: "stage2_logic_check js now p [] = (True, [])"
    using assms by (intro stage2_ok)
  have s3: "stage3_sovereignty_check js p [] = (True, [])"
    using assms by (intro stage3_ok)
  show ?thesis
    using assms(1) s1 s2 s3 toFixed_4_one by (simp add: verify_def Let_def)
qed

subsection \<open>The learning core\<close>

lemma prune_singleton:
  assumes "patterns lc = [e]" and "of_nat (length (patterns lc)) > memorySize (lc_config lc)"
  shows "pruneWeakPatterns lc = lc"
proof -
  have "memorySize (lc_config lc) < 1" using assms by simp
  then have "memorySize (lc_config lc) * (1 / 10) < 1" by simp
  then have k: "\<lfloor>memorySize (lc_config lc) * (1 / 10)\<rfloor> \<le> 0"
    by (simp add: floor_le_iff)
  define j where "j = \<lfloor>memorySize (lc_config lc) * (1 / 10)\<rfloor>"
  have "j \<le> 0" using k by (simp only: j_def)
  then have "slice0 j [e] = []" by (cases "j < 0") (simp_all add: slice0_def)
  then have "slice0 \<lfloor>memorySize (lc_config lc) * (1 / 10)\<rfloor> [e] = []" by (simp add: j_def)
  then show ?thesis using assms(1) by (simp add: pruneWeakPatterns_def Let_def)
qed








lemma patterns_updateModelVersion: "patterns (updateModelVersion lc) = patterns lc"
  by (simp add: updateModelVersion_def Let_def)

lemma patterns_decayPatterns:
  "patterns (decayPatterns lc) =
     map (\<lambda>(k, p). (k, p\<lparr>weight := toFixed 6 (weight p * decayRate (lc_config lc))\<rparr>)) (patterns lc)"
  by (simp add: decayPatterns_def)

lemma lc_config_decayPatterns: "lc_config (decayPatterns lc) = lc_config lc"
  by (simp add: decayPatterns_def)

lemma prune_one:
  "length (patterns lc) = 1 \<Longrightarrow> memorySize (lc_config lc) < 1 \<Longrightarrow>
   patterns (pruneWeakPatterns lc) = patterns lc"
proof -
  assume l: "length (patterns lc) = 1" and m: "memorySize (lc_config lc) < 1"
  obtain e where e: "patterns lc = [e]" using l by (cases "patterns lc") simp_all
  have "pruneWeakPatterns lc = lc" using e m by (intro prune_singleton [of lc e]) simp_all
  then show ?thesis by simp
qed

lemma ingest_first:
  assumes "patterns lc = []"
  shows "patterns (snd (ingest js now inp lc)) =
     [(hashFeatures (extractFeatures js (ii_data inp)) (ii_type inp),
       \<lparr>p_id = hashFeatures (extractFeatures js (ii_data inp)) (ii_type inp),
        p_type = ii_type inp,
        features = sort (extractFeatures js (ii_data inp)),
        weight = (if ii_type inp = Success then 6 / 10 else 4 / 10),
        seenCount = 1, lastSeen = now\<rparr>)]"
  using assms
  by (simp add: ingest_def Let_def patterns_updateModelVersion patterns_decayPatterns
      lc_config_decayPatterns map_set_def map_has_def prune_one)


lemma lr_patterns_ingest:
  "lr_patterns (fst (ingest js now inp lc)) = length (patterns (snd (ingest js now inp lc)))"
  by (simp add: ingest_def Let_def case_prod_beta)

lemma improvementDelta_first:
  assumes "patterns lc = []"
  shows "improvementDelta (fst (ingest js now inp lc)) =
           toFixed 6 (if ii_type inp = Success then 6 / 10 else 4 / 10)"
  using assms
  by (simp add: ingest_def Let_def patterns_decayPatterns case_prod_beta)

lemma patterns_new_LearningCore: "patterns (new_LearningCore cfg) = []"
  by (simp add: new_LearningCore_def)



lemma streak_loop_le: "fst (streak_loop ss ps fs) \<le> ps + length ss"
proof (induction ss arbitrary: ps fs)
  case Nil
  show ?case by simp
next
  case (Cons s ss)
  have a: "fst (streak_loop ss (ps + 1) fs) \<le> ps + 1 + length ss" by (rule Cons.IH)
  have "fst (streak_loop ss ps (fs + 1)) \<le> ps + length ss" by (rule Cons.IH)
  then have b: "fst (streak_loop ss ps (fs + 1)) \<le> ps + 1 + length ss" by simp
  show ?case using a b by auto
qed

lemma passStreak_updateStreaks_new:
  "passStreak (updateStreaks h (new_ScalingEngine pol)) \<le> length h"
proof (cases "length h = 0")
  case True
  then show ?thesis by (simp add: updateStreaks_def new_ScalingEngine_def)
next
  case False
  have "fst (streak_loop (rev (map status (last_n 10 h))) 0 0) \<le> length (last_n 10 h)"
    using streak_loop_le [of "rev (map status (last_n 10 h))" 0 0] by simp
  also have "\<dots> \<le> length h" by (simp add: last_n_def)
  finally show ?thesis using False
    by (simp add: updateStreaks_def Let_def case_prod_beta)
qed

lemma scale_noop:
  assumes "length h < 3"
  shows "fst (scale \<lparr>si_score = 1, si_iteration = 1, si_history = h\<rparr>
                (new_ScalingEngine default_policy)) =
           \<lparr>scaled = False, previousScale = 1, newScale = 1, reason = ''No scaling event''\<rparr>"
proof -
  let ?e = "updateStreaks h (new_ScalingEngine default_policy)"
  have "passStreak ?e < 3"
    using assms passStreak_updateStreaks_new [of h default_policy] by simp
  then have ps: "\<not> (3::rat) \<le> of_nat (passStreak ?e)"
    by (metis of_nat_le_iff of_nat_numeral not_less)
  have c: "currentScale ?e = 1" and p: "policy ?e = default_policy"
    by (simp_all add: currentScale_updateStreaks policy_updateStreaks new_ScalingEngine_def)
  show ?thesis
    using ps c p
    by (simp add: scale_def Let_def default_policy_def new_ScalingEngine_def split: prod.splits)
qed

text \<open>
  Claim C8, as amended. With threshold 0.85, three stages and strict mode, verifying a
  snapshot with iteration 1, scale 1, a valid node id (one that contains the marker and
  an allow-listed name), a learner version of the form digits.digits, average confidence
  0.9, success rate 1.0, average ROI 10 and a positive timestamp at most 60 seconds old
  yields all three stages true, score 1 and \<open>passed\<close>. The scaling evaluation that follows
  on a new engine, with a history of fewer than three records (so that the pass streak is
  below 3), produces no scaling event. Ingesting the success into a new learning core
  creates exactly one pattern, a success pattern of weight 0.6.
\<close>

theorem end_to_end_first_pass:
  assumes "v_config v = \<lparr>stages = 3, threshold = 85 / 100, strictMode = True\<rparr>"
    and "field p ''iteration'' = Num 1" and "field p ''scale'' = Num 1"
    and "field p ''ark95xNode'' = Str node" and "js_includes node ''ARK95X''"
    and "list_ex (\<lambda>n. js_includes node (split_head CHR ''-'' n)) validNodes"
    and "field p ''learnerVersion'' = Str ver" and "match_version ver"
    and "field p ''avgConfidence'' = Num (9 / 10)" and "field p ''successRate'' = Num 1"
    and "field p ''avgROI'' = Num 10"
    and "field p ''timestamp'' = Num t" and "0 < t" and "of_int now - t \<le> 60000"
    and "length h < 3"
  shows "fst (verify js now p v) =
           \<lparr>stage1_syntax = True, stage2_logic = True, stage3_sovereignty = True,
            passed = True, score = 1, errors = []\<rparr> \<and>
         fst (scale \<lparr>si_score = score (fst (verify js now p v)), si_iteration = 1,
                     si_history = h\<rparr> (new_ScalingEngine default_policy)) =
           \<lparr>scaled = False, previousScale = 1, newScale = 1, reason = ''No scaling event''\<rparr> \<and>
         patterns (snd (ingest js now' \<lparr>ii_type = Success, ii_data = d, ii_iteration = 1\<rparr>
                          (new_LearningCore cfg))) =
           [(hashFeatures (extractFeatures js d) Success,
             \<lparr>p_id = hashFeatures (extractFeatures js d) Success, p_type = Success,
              features = sort (extractFeatures js d), weight = 6 / 10,
              seenCount = 1, lastSeen = now'\<rparr>)] \<and>
         lr_patterns (fst (ingest js now' \<lparr>ii_type = Success, ii_data = d, ii_iteration = 1\<rparr>
                          (new_LearningCore cfg))) = 1 \<and>
         improvementDelta (fst (ingest js now' \<lparr>ii_type = Success, ii_data = d,
                                  ii_iteration = 1\<rparr> (new_LearningCore cfg))) = 6 / 10"
proof -
  have v: "fst (verify js now p v) =
           \<lparr>stage1_syntax = True, stage2_logic = True, stage3_sovereignty = True,
            passed = True, score = 1, errors = []\<rparr>"
    using assms(1-14) by (rule verify_ok)
  have s: "fst (scale \<lparr>si_score = 1, si_iteration = 1, si_history = h\<rparr>
                  (new_ScalingEngine default_policy)) =
           \<lparr>scaled = False, previousScale = 1, newScale = 1, reason = ''No scaling event''\<rparr>"
    using assms(15) by (rule scale_noop)
  let ?inp = "\<lparr>ii_type = Success, ii_data = d, ii_iteration = 1\<rparr>"
  have l: "patterns (snd (ingest js now' ?inp (new_LearningCore cfg))) =
           [(hashFeatures (extractFeatures js d) Success,
             \<lparr>p_id = hashFeatures (extractFeatures js d) Success, p_type = Success,
              features = sort (extractFeatures js d), weight = 6 / 10,
              seenCount = 1, lastSeen = now'\<rparr>)]"
    using ingest_first [OF patterns_new_LearningCore, of js now' ?inp cfg] by simp
  have n: "lr_patterns (fst (ingest js now' ?inp (new_LearningCore cfg))) = 1"
    using l by (simp add: lr_patterns_ingest)
  have i: "improvementDelta (fst (ingest js now' ?inp (new_LearningCore cfg))) = 6 / 10"
    using improvementDelta_first [OF patterns_new_LearningCore, of js now' ?inp cfg] toFixed_6_seed
    by simp
  show ?thesis using v s l n i by simp
qed

text \<open>
  The snapshot with exactly the fields the scenario lists has no \<^verbatim>\<open>learnerVersion\<close>:
  stage 1 reports the missing field, stage 3 the invalid version, and the gate fails with
  score 0.3.
\<close>

theorem scenario_without_version_counterexample:
  "fst (verify sample_builtins 1700000000002 scenario_fields
          (new_VERI3FY default_VERI3FYConfig)) =
     \<lparr>stage1_syntax = False, stage2_logic = True, stage3_sovereignty = False,
      passed = False, score = 3 / 10,
      errors = [ErrMsg ''STAGE1: Missing required field: ${}'' [Str ''learnerVersion''],
                ErrMsg ''STAGE3: Invalid learner version: ${}'' [Undefined]]\<rparr>"
  by code_simp

theorem end_to_end_first_pass_witness:
  "v_config (new_VERI3FY default_VERI3FYConfig)
     = \<lparr>stages = 3, threshold = 85 / 100, strictMode = True\<rparr> \<and>
   field scenario_payload ''iteration'' = Num 1 \<and>
   field scenario_payload ''scale'' = Num 1 \<and>
   field scenario_payload ''ark95xNode'' = Str ''SLVSS-ARK95X-v2'' \<and>
   field scenario_payload ''learnerVersion'' = Str ''1.0'' \<and>
   field scenario_payload ''avgConfidence'' = Num (9 / 10) \<and>
   field scenario_payload ''successRate'' = Num 1 \<and>
   field scenario_payload ''avgROI'' = Num 10 \<and>
   field scenario_payload ''timestamp'' = Num 1700000000000 \<and>
   fst (verify sample_builtins 1700000000002 scenario_payload
          (new_VERI3FY default_VERI3FYConfig)) =
     \<lparr>stage1_syntax = True, stage2_logic = True, stage3_sovereignty = True,
      passed = True, score = 1, errors = []\<rparr> \<and>
   fst (scale \<lparr>si_score = score (fst (verify sample_builtins 1700000000002 scenario_payload
                                       (new_VERI3FY default_VERI3FYConfig))),
               si_iteration = 1, si_history = [passed_iteration 1]\<rparr>
          (new_ScalingEngine default_policy)) =
     \<lparr>scaled = False, previousScale = 1, newScale = 1, reason = ''No scaling event''\<rparr> \<and>
   map (\<lambda>e. weight (snd e))
     (patterns (snd (ingest sample_builtins 1700000000003
        \<lparr>ii_type = Success, ii_data = [(''vResult'', Val Obj), (''scale'', Val (Num 1))],
         ii_iteration = 1\<rparr> (new_LearningCore default_LearningConfig)))) = [6 / 10]"
proof -
  let ?v = "new_VERI3FY default_VERI3FYConfig"
  have h1: "v_config ?v = \<lparr>stages = 3, threshold = 85 / 100, strictMode = True\<rparr>"
    by code_simp
  have h2: "field scenario_payload ''iteration'' = Num 1" by code_simp
  have h3: "field scenario_payload ''scale'' = Num 1" by code_simp
  have h4: "field scenario_payload ''ark95xNode'' = Str ''SLVSS-ARK95X-v2''" by code_simp
  have h5: "js_includes ''SLVSS-ARK95X-v2'' ''ARK95X''" by code_simp
  have h6: "list_ex (\<lambda>n. js_includes ''SLVSS-ARK95X-v2'' (split_head CHR ''-'' n)) validNodes"
    by code_simp
  have h7: "field scenario_payload ''learnerVersion'' = Str ''1.0''" by code_simp
  have h8: "match_version ''1.0''" by code_simp
  have h9: "field scenario_payload ''avgConfidence'' = Num (9 / 10)" by code_simp
  have h10: "field scenario_payload ''successRate'' = Num 1" by code_simp
  have h11: "field scenario_payload ''avgROI'' = Num 10" by code_simp
  have h12: "field scenario_payload ''timestamp'' = Num 1700000000000" by code_simp
  have h13: "(0::rat) < 1700000000000" by simp
  have h14: "of_int 1700000000002 - (1700000000000::rat) \<le> 60000" by simp
  have h15: "length [passed_iteration 1] < 3" by simp
  show ?thesis
    using h1 h2 h3 h4 h7 h9 h10 h11 h12
      end_to_end_first_pass [OF h1 h2 h3 h4 h5 h6 h7 h8 h9 h10 h11 h12 h13 h14 h15,
        of sample_builtins 1700000000003 "[(''vResult'', Val Obj), (''scale'', Val (Num 1))]"
          default_LearningConfig]
    by auto
qed

subsection \<open>The status of a finished iteration\<close>

lemma tick_try_Inr:
  assumes "tick_try js env r it = Inr (r', it')" and "status it = Running"
  shows "status it' \<noteq> Running \<and>
         veri3fyResult it' = fst (verify js (clock_verify env) (buildPayload (clock_payload env) r) (veri3fy r)) \<and>
         (status it' = Scaled \<longrightarrow> passed (veri3fyResult it')) \<and>
         (status it' = Failed \<longleftrightarrow> \<not> passed (veri3fyResult it')) \<and>
         history r' = history r"
  using assms
  by (auto simp: tick_try_def Let_def split: if_splits prod.splits)

lemma tick_try_Inl:
  assumes "tick_try js env r it = Inl (r', it')"
  shows "history r' = history r"
  using assms
  by (auto simp: tick_try_def Let_def split: if_splits prod.splits)

lemma tick_Some:
  assumes "tick js env r = (r', Some it)"
  shows "running r \<and>
     (\<exists>r2 it2. (case tick_try js env (r\<lparr>iteration := iteration r + 1\<rparr>)
                    (new_iteration (iteration r + 1) (clock_start env) (currentScale (scaling r))) of
                  Inr x \<Rightarrow> x
                | Inl (ra, ita) \<Rightarrow> (ra\<lparr>totalFailed := totalFailed ra + 1\<rparr>, ita\<lparr>status := Failed\<rparr>))
                = (r2, it2) \<and>
              it = it2\<lparr>completedAt := Some (clock_end env),
                       durationMs := clock_end env - clock_start env\<rparr> \<and>
              history r' = (let h = history r2 @ [it] in if length h > 100 then tl h else h))"
  using assms
  by (auto simp: tick_def Let_def split: if_splits prod.splits)

lemma status_new_iteration: "status (new_iteration n t s) = Running"
  by (simp add: new_iteration_def)

text \<open>
  Claim C1. The record finalized by a completed tick has status \<open>Passed\<close>, \<open>Failed\<close> or
  \<open>Scaled\<close>, never \<open>Running\<close>; and when the status is \<open>Scaled\<close>, the gate did not throw
  and its result for this tick's payload, which is the result stored in the record, has
  \<open>passed\<close> set.
\<close>

theorem tick_status:
  assumes "tick js env r = (r', Some it)"
  shows "status it \<in> {Passed, Failed, Scaled} \<and>
         (status it = Scaled \<longrightarrow>
            fault env \<noteq> Some VerifyPhase \<and>
            passed (veri3fyResult it) \<and>
            veri3fyResult it =
              fst (verify js (clock_verify env)
                     (buildPayload (clock_payload env) (r\<lparr>iteration := iteration r + 1\<rparr>))
                     (veri3fy r)))"
proof -
  let ?r1 = "r\<lparr>iteration := iteration r + 1\<rparr>"
  let ?it0 = "new_iteration (iteration r + 1) (clock_start env) (currentScale (scaling r))"
  obtain r2 it2 where
    c: "(case tick_try js env ?r1 ?it0 of
           Inr x \<Rightarrow> x
         | Inl (ra, ita) \<Rightarrow> (ra\<lparr>totalFailed := totalFailed ra + 1\<rparr>, ita\<lparr>status := Failed\<rparr>))
        = (r2, it2)"
    and i: "it = it2\<lparr>completedAt := Some (clock_end env),
                      durationMs := clock_end env - clock_start env\<rparr>"
    using tick_Some [OF assms] by blast
  show ?thesis
  proof (cases "tick_try js env ?r1 ?it0")
    case (Inl x)
    then have "status it2 = Failed" using c by (cases x) auto
    then show ?thesis using i by simp
  next
    case (Inr x)
    then have t: "tick_try js env ?r1 ?it0 = Inr (r2, it2)" using c by simp
    have nv: "fault env \<noteq> Some VerifyPhase"
      using t by (auto simp: tick_try_def)
    let ?V = "fst (verify js (clock_verify env) (buildPayload (clock_payload env) ?r1) (veri3fy r))"
    note tt = tick_try_Inr [OF t status_new_iteration]
    have a: "status it2 \<noteq> Running"
      and d: "status it2 = Scaled \<longrightarrow> passed (veri3fyResult it2)"
      using tt by blast+
    have "veri3fyResult it2 =
            fst (verify js (clock_verify env) (buildPayload (clock_payload env) ?r1) (veri3fy ?r1))"
      using tt by blast
    then have b: "veri3fyResult it2 = ?V" by simp
    have e: "status it = status it2" using i by simp
    have "veri3fyResult it = veri3fyResult it2" using i by simp
    then have f: "veri3fyResult it = ?V" using b by (rule trans)
    have g: "status it = Scaled \<longrightarrow> passed (veri3fyResult it)"
      using d e \<open>veri3fyResult it = veri3fyResult it2\<close> by metis
    have "status it \<in> {Passed, Failed, Scaled}" using a e by (cases "status it2") simp_all
    then show ?thesis using nv f g by blast
  qed
qed

lemma tick_pair:
  "snd (tick js env r) \<noteq> None \<Longrightarrow>
   tick js env r = (fst (tick js env r), Some (the (snd (tick js env r))))"
  by (cases "tick js env r") auto

theorem tick_status_witness:
  "snd (tick sample_builtins sample_env runner_after_three) \<noteq> None \<and>
   status (the (snd (tick sample_builtins sample_env runner_after_three))) = Scaled \<and>
   status (the (snd (tick sample_builtins sample_env runner_after_three)))
     \<in> {Passed, Failed, Scaled} \<and>
   passed (veri3fyResult (the (snd (tick sample_builtins sample_env runner_after_three))))"
proof -
  have n: "snd (tick sample_builtins sample_env runner_after_three) \<noteq> None"
    by code_simp
  have s: "status (the (snd (tick sample_builtins sample_env runner_after_three))) = Scaled"
    by code_simp
  show ?thesis
    using n s tick_status [OF tick_pair [OF n]] by blast
qed

subsection \<open>The bounded history\<close>

lemma tick_history:
  assumes "tick js env r = (r', Some it)"
  shows "history r' = (let h = history r @ [it] in if length h > 100 then tl h else h)"
proof -
  let ?r1 = "r\<lparr>iteration := iteration r + 1\<rparr>"
  let ?it0 = "new_iteration (iteration r + 1) (clock_start env) (currentScale (scaling r))"
  obtain r2 it2 where
    c: "(case tick_try js env ?r1 ?it0 of
           Inr x \<Rightarrow> x
         | Inl (ra, ita) \<Rightarrow> (ra\<lparr>totalFailed := totalFailed ra + 1\<rparr>, ita\<lparr>status := Failed\<rparr>))
        = (r2, it2)"
    and h: "history r' = (let h = history r2 @ [it] in if length h > 100 then tl h else h)"
    using tick_Some [OF assms] by blast
  have "history r2 = history ?r1"
  proof (cases "tick_try js env ?r1 ?it0")
    case (Inl x)
    obtain ra ita where x: "x = (ra, ita)" by (cases x)
    have "history ra = history ?r1" using Inl x by (intro tick_try_Inl) simp
    then show ?thesis using c Inl x by auto
  next
    case (Inr x)
    then have "tick_try js env ?r1 ?it0 = Inr (r2, it2)" using c by simp
    then show ?thesis using tick_try_Inr [OF _ status_new_iteration] by blast
  qed
  then show ?thesis using h by simp
qed

lemma tick_None: "tick js env r = (r', None) \<Longrightarrow> history r' = history r"
  by (auto simp: tick_def stop_def Let_def split: if_splits prod.splits)

lemma tick_history_le:
  assumes "length (history r) \<le> 100"
  shows "length (history (fst (tick js env r))) \<le> 100"
proof (cases "snd (tick js env r)")
  case None
  then have "tick js env r = (fst (tick js env r), None)" by (cases "tick js env r") simp
  then have "history (fst (tick js env r)) = history r" by (rule tick_None)
  then show ?thesis using assms by simp
next
  case (Some it)
  then have "tick js env r = (fst (tick js env r), Some it)" by (cases "tick js env r") simp
  then have "history (fst (tick js env r)) =
               (let h = history r @ [it] in if length h > 100 then tl h else h)"
    by (rule tick_history)
  then show ?thesis using assms by (simp add: Let_def)
qed

lemma step_history_le:
  assumes "length (history r) \<le> 100"
  shows "length (history (step js ev r)) \<le> 100"
proof (cases ev)
  case (Start now env)
  show ?thesis
    using assms tick_history_le [of "r\<lparr>running := True, startTime := now\<rparr>" js env]
    by (simp add: Start start_def)
next
  case Stop
  then show ?thesis using assms by (simp add: stop_def)
next
  case (Timer env)
  show ?thesis
    using assms tick_history_le [of "r\<lparr>loopTimer := False\<rparr>" js env]
    by (simp add: Timer)
qed

lemma run_history_le:
  "length (history r) \<le> 100 \<Longrightarrow> length (history (run js evs r)) \<le> 100"
  unfolding run_def by (induction evs arbitrary: r) (simp_all add: step_history_le)

text \<open>
  Claim C6. In every state that a runner reaches through calls of \<^verbatim>\<open>start\<close> and \<^verbatim>\<open>stop\<close>
  and timer ticks, the history holds at most 100 records. A tick that completes in such
  a state appends its record at the end; if the history held 100 records, the oldest one
  (the first) is dropped, so that the bound still holds.
\<close>

theorem history_bounded_fifo:
  "length (history (run js evs (new_SLVSSRunner cfg t0))) \<le> 100 \<and>
   (tick js env (run js evs (new_SLVSSRunner cfg t0)) = (r', Some it) \<longrightarrow>
      length (history r') \<le> 100 \<and>
      last (history r') = it \<and>
      history r' =
        (if length (history (run js evs (new_SLVSSRunner cfg t0))) < 100
         then history (run js evs (new_SLVSSRunner cfg t0)) @ [it]
         else tl (history (run js evs (new_SLVSSRunner cfg t0))) @ [it]))"
proof -
  let ?r = "run js evs (new_SLVSSRunner cfg t0)"
  have "length (history (new_SLVSSRunner cfg t0)) \<le> 100" by (simp add: new_SLVSSRunner_def)
  then have l: "length (history ?r) \<le> 100" by (rule run_history_le)
  have "length (history r') \<le> 100 \<and> last (history r') = it \<and>
        history r' = (if length (history ?r) < 100 then history ?r @ [it]
                      else tl (history ?r) @ [it])"
    if t: "tick js env ?r = (r', Some it)"
  proof -
    have h: "history r' = (let h = history ?r @ [it] in if length h > 100 then tl h else h)"
      using t by (rule tick_history)
    show ?thesis
    proof (cases "length (history ?r) < 100")
      case True
      then show ?thesis using h by (simp add: Let_def)
    next
      case False
      then have e: "length (history ?r) = 100" using l by simp
      then have ne: "history ?r \<noteq> []" by auto
      have "history r' = tl (history ?r) @ [it]" using h e ne by (simp add: Let_def)
      then show ?thesis using e False by simp
    qed
  qed
  then show ?thesis using l by blast
qed

theorem history_bounded_fifo_witness:
  "snd (tick sample_builtins sample_env runner_after_three) \<noteq> None \<and>
   length (history runner_after_three) = 3 \<and>
   length (history (fst (tick sample_builtins sample_env runner_after_three))) \<le> 100 \<and>
   history (fst (tick sample_builtins sample_env runner_after_three)) =
     history runner_after_three @ [the (snd (tick sample_builtins sample_env runner_after_three))]"
proof -
  have n: "snd (tick sample_builtins sample_env runner_after_three) \<noteq> None"
    by code_simp
  have l: "length (history runner_after_three) = 3" by code_simp
  show ?thesis
    using n l
      history_bounded_fifo [of sample_builtins
        "[Start 1700000000000 sample_env, Timer sample_env, Timer sample_env]"
        default_LoopConfig 1700000000000 sample_env
        "fst (tick sample_builtins sample_env runner_after_three)"
        "the (snd (tick sample_builtins sample_env runner_after_three))"]
      tick_pair [OF n]
    by (simp add: runner_after_three_def [symmetric])
qed

subsection \<open>Pruning and the capacity of the learning core\<close>

lemma map_has_iff: "map_has m k \<longleftrightarrow> k \<in> set (map fst m)"
  by (simp add: map_has_def map_of_eq_None_iff)

lemma keys_map_set:
  "map fst (map_set k v m) = (if k \<in> set (map fst m) then map fst m else map fst m @ [k])"
  by (induction m) (auto simp: map_set_def map_has_iff)

lemma keys_decayPatterns: "map fst (patterns (decayPatterns lc)) = map fst (patterns lc)"
  by (simp add: decayPatterns_def case_prod_beta)

lemma foldl_map_delete:
  "foldl (\<lambda>m e. map_delete (fst e) m) m rem = filter (\<lambda>e. fst e \<notin> fst ` set rem) m"
proof (induction rem arbitrary: m)
  case Nil
  show ?case by simp
next
  case (Cons a rem)
  have "foldl (\<lambda>m e. map_delete (fst e) m) (map_delete (fst a) m) rem =
          filter (\<lambda>e. fst e \<notin> fst ` set rem) (map_delete (fst a) m)"
    by (rule Cons.IH)
  then show ?case by (simp add: map_delete_def conj_commute)
qed

lemma length_removed:
  assumes d: "distinct (map fst m)" and s: "set rem \<subseteq> set m" and r: "distinct rem"
  shows "length (filter (\<lambda>e. fst e \<notin> fst ` set rem) m) = length m - length rem"
proof -
  have dm: "distinct m" using d by (simp add: distinct_map)
  have inj: "inj_on fst (set m)" using d by (simp add: distinct_map)
  have eq: "fst e \<in> fst ` set rem \<longleftrightarrow> e \<in> set rem" if "e \<in> set m" for e
    using that s inj by (auto simp: inj_on_def)
  have "filter (\<lambda>e. fst e \<notin> fst ` set rem) m = filter (\<lambda>e. e \<notin> set rem) m"
    by (rule filter_cong) (simp_all add: eq)
  moreover have "length (filter (\<lambda>e. e \<notin> set rem) m) = card (set m - set rem)"
    using dm by (simp add: distinct_length_filter Diff_eq Int_commute Collect_neg_eq)
  moreover have "card (set m - set rem) = card (set m) - card (set rem)"
    using s by (simp add: card_Diff_subset)
  ultimately show ?thesis using dm r by (simp add: distinct_card)
qed

lemma floor_tenth: "\<lfloor>(of_nat n :: rat) / 10\<rfloor> = int (n div 10)"
  using floor_divide_of_nat_eq [of n 10, where ?'a = rat] by simp

lemma prune_length:
  assumes d: "distinct (map fst (patterns lc))"
    and m: "memorySize (lc_config lc) = of_nat n"
  shows "length (patterns (pruneWeakPatterns lc)) =
           length (patterns lc) - min (n div 10) (length (patterns lc))"
    and "distinct (map fst (patterns (pruneWeakPatterns lc)))"
proof -
  let ?m = "patterns lc"
  let ?rem = "take (n div 10) (sort_key (\<lambda>e. weight (snd e)) ?m)"
  have p: "patterns (pruneWeakPatterns lc) = filter (\<lambda>e. fst e \<notin> fst ` set ?rem) ?m"
    by (simp add: pruneWeakPatterns_def Let_def m floor_tenth slice0_def foldl_map_delete)
  have dm: "distinct ?m" using d by (simp add: distinct_map)
  have s: "set ?rem \<subseteq> set ?m" using set_take_subset [of "n div 10" "sort_key (\<lambda>e. weight (snd e)) ?m"] by simp
  have r: "distinct ?rem" using dm by simp
  show "length (patterns (pruneWeakPatterns lc)) =
           length (patterns lc) - min (n div 10) (length (patterns lc))"
    using length_removed [OF d s r] p by (simp add: min.commute)
  show "distinct (map fst (patterns (pruneWeakPatterns lc)))"
    using d p by (simp add: distinct_map_filter)
qed

lemma length_map_set:
  "length (map_set k v m) = (if k \<in> set (map fst m) then length m else length m + 1)"
  by (simp add: map_set_def map_has_iff)

lemma map_of_None_keys: "map_of m k = None \<longleftrightarrow> k \<notin> set (map fst m)"
  by (simp add: map_of_eq_None_iff)

lemma patterns_ingest_None:
  assumes "map_of (patterns (decayPatterns (lc\<lparr>ingestCount := ingestCount lc + 1\<rparr>)))
             (hashFeatures (extractFeatures js (ii_data inp)) (ii_type inp)) = None"
  shows "patterns (snd (ingest js now inp lc)) =
     (let lc2 = decayPatterns (lc\<lparr>ingestCount := ingestCount lc + 1\<rparr>);
          k = hashFeatures (extractFeatures js (ii_data inp)) (ii_type inp);
          lc' = lc2\<lparr>patterns := map_set k
                   \<lparr>p_id = k, p_type = ii_type inp,
                    features = sort (extractFeatures js (ii_data inp)),
                    weight = (if ii_type inp = Success then 6 / 10 else 4 / 10),
                    seenCount = 1, lastSeen = now\<rparr> (patterns lc2)\<rparr>
      in if of_nat (length (patterns lc')) > memorySize (lc_config lc)
         then patterns (pruneWeakPatterns lc') else patterns lc')"
  using assms
  by (simp add: ingest_def Let_def patterns_updateModelVersion lc_config_decayPatterns)

lemma patterns_ingest_Some:
  assumes "map_of (patterns (decayPatterns (lc\<lparr>ingestCount := ingestCount lc + 1\<rparr>)))
             (hashFeatures (extractFeatures js (ii_data inp)) (ii_type inp)) = Some q"
  shows "\<exists>q'. patterns (snd (ingest js now inp lc)) =
           map_set (hashFeatures (extractFeatures js (ii_data inp)) (ii_type inp)) q'
             (patterns (decayPatterns (lc\<lparr>ingestCount := ingestCount lc + 1\<rparr>)))"
  using assms
  by (auto simp: ingest_def Let_def patterns_updateModelVersion)

lemma lc_config_ingest: "lc_config (snd (ingest js now inp lc)) = lc_config lc"
  by (simp add: ingest_def Let_def updateModelVersion_def pruneWeakPatterns_def
      lc_config_decayPatterns case_prod_beta split: option.splits)

lemma ingest_capacity:
  assumes m: "memorySize (lc_config lc) = of_nat n" and n: "10 \<le> n"
    and d: "distinct (map fst (patterns lc))" and l: "length (patterns lc) \<le> n"
  shows "length (patterns (snd (ingest js now inp lc))) \<le> n \<and>
         distinct (map fst (patterns (snd (ingest js now inp lc)))) \<and>
         memorySize (lc_config (snd (ingest js now inp lc))) = of_nat n"
proof -
  let ?lc2 = "decayPatterns (lc\<lparr>ingestCount := ingestCount lc + 1\<rparr>)"
  let ?k = "hashFeatures (extractFeatures js (ii_data inp)) (ii_type inp)"
  have k2: "map fst (patterns ?lc2) = map fst (patterns lc)"
    by (simp add: keys_decayPatterns)
  have c2: "lc_config ?lc2 = lc_config lc" by (simp add: lc_config_decayPatterns)
  have l2: "length (patterns ?lc2) = length (patterns lc)"
    using k2 by (metis length_map)
  have cfg: "memorySize (lc_config (snd (ingest js now inp lc))) = of_nat n"
    using m by (simp add: lc_config_ingest)
  show ?thesis
  proof (cases "map_of (patterns ?lc2) ?k")
    case None
    then have nk: "?k \<notin> set (map fst (patterns ?lc2))"
      using map_of_None_keys [of "patterns ?lc2" ?k] by blast
    let ?np = "\<lparr>p_id = ?k, p_type = ii_type inp,
             features = sort (extractFeatures js (ii_data inp)),
             weight = (if ii_type inp = Success then 6 / 10 else 4 / 10),
             seenCount = 1, lastSeen = now\<rparr>"
    let ?lc' = "?lc2\<lparr>patterns := map_set ?k ?np (patterns ?lc2)\<rparr>"
    have p: "patterns (snd (ingest js now inp lc)) =
               (if of_nat (length (patterns ?lc')) > memorySize (lc_config lc)
                then patterns (pruneWeakPatterns ?lc') else patterns ?lc')"
      using patterns_ingest_None [OF None, of now] by (simp only: Let_def)
    have d': "distinct (map fst (patterns ?lc'))"
      using d nk k2 by (simp add: keys_map_set)
    have l': "length (patterns ?lc') = length (patterns lc) + 1"
      using nk l2 by (simp add: length_map_set)
    have m': "memorySize (lc_config ?lc') = of_nat n" using m c2 by simp
    show ?thesis
    proof (cases "of_nat (length (patterns ?lc')) > memorySize (lc_config lc)")
      case True
      have "1 \<le> n div 10" using n by simp
      then have "length (patterns ?lc') - min (n div 10) (length (patterns ?lc')) \<le> n"
        using l' l by simp
      then have "length (patterns (pruneWeakPatterns ?lc')) \<le> n"
        using prune_length(1) [OF d' m'] by simp
      moreover have "distinct (map fst (patterns (pruneWeakPatterns ?lc')))"
        using d' m' by (rule prune_length(2))
      ultimately show ?thesis using True p cfg by simp
    next
      case False
      then have "length (patterns ?lc') \<le> n" using m by simp
      then show ?thesis using False p cfg d' by simp
    qed
  next
    case (Some q)
    then have ik: "?k \<in> set (map fst (patterns ?lc2))"
      using map_of_None_keys [of "patterns ?lc2" ?k] by auto
    obtain q' where p: "patterns (snd (ingest js now inp lc)) = map_set ?k q' (patterns ?lc2)"
      using patterns_ingest_Some [OF Some] by blast
    have "map fst (map_set ?k q' (patterns ?lc2)) = map fst (patterns ?lc2)"
      using ik by (simp only: keys_map_set if_True)
    then have ks: "map fst (map_set ?k q' (patterns ?lc2)) = map fst (patterns lc)"
      by (simp only: k2)
    then have "length (map_set ?k q' (patterns ?lc2)) = length (patterns lc)"
      by (metis length_map)
    then show ?thesis using ks p d l cfg by simp
  qed
qed

lemma ingest_all_capacity:
  assumes "memorySize (lc_config lc) = of_nat n" and "10 \<le> n"
    and "distinct (map fst (patterns lc))" and "length (patterns lc) \<le> n"
  shows "length (patterns (ingest_all js obs lc)) \<le> n"
  using assms
proof (induction obs arbitrary: lc)
  case Nil
  then show ?case by simp
next
  case (Cons ob obs)
  obtain now inp where o: "ob = (now, inp)" by (cases ob)
  have "length (patterns (snd (ingest js now inp lc))) \<le> n \<and>
         distinct (map fst (patterns (snd (ingest js now inp lc)))) \<and>
         memorySize (lc_config (snd (ingest js now inp lc))) = of_nat n"
    using Cons.prems by (intro ingest_capacity)
  then have "length (patterns (ingest_all js obs (snd (ingest js now inp lc)))) \<le> n"
    using Cons.prems(2) by (intro Cons.IH) simp_all
  then show ?case by (simp add: o)
qed

text \<open>
  For a capacity that is a whole number of at least 10, pruning removes at least one
  pattern and the stored patterns never exceed the capacity.
\<close>

lemma capacity_from_ten:
  assumes "memorySize cfg = of_nat n" and "10 \<le> n"
  shows "length (patterns (ingest_all js obs (new_LearningCore cfg))) \<le> n"
  using assms by (intro ingest_all_capacity) (simp_all add: new_LearningCore_def)

text \<open>
  Claim C4 at capacity 5. Five ingests of different patterns fill the core. The sixth
  adds a pattern, finds 6 above the capacity and prunes; pruning removes
  \<open>\<lfloor>5 \<times> 0.1\<rfloor> = 0\<close> patterns, and the core is left with 6 stored patterns, more than its
  capacity.
\<close>

theorem prune_leaves_overflow:
  "memorySize (lc_config small_core) = 5 \<and>
   \<lfloor>memorySize (lc_config small_core) * (1 / 10)\<rfloor> = 0 \<and>
   length (patterns (ingest_all sample_builtins five_observations small_core)) = 5 \<and>
   length (patterns (ingest_all sample_builtins six_observations small_core)) = 6 \<and>
   length (patterns (pruneWeakPatterns
                       (ingest_all sample_builtins six_observations small_core))) = 6"
  by code_simp

end
